theory Spec2Isabelle
  imports Complex_Main
begin

section \<open>The platform's JSON reader\<close>

text \<open>
  The scene component restores its camera with \<^verbatim>\<open>JSON.parse(this.cameraState)\<close>.
  The reader below follows the JSON grammar (ECMA-404) that \<^verbatim>\<open>JSON.parse\<close> implements:
  a text that is not in the grammar raises \<^verbatim>\<open>SyntaxError\<close>.  JavaScript numbers are IEEE
  doubles; throughout this development a finite number is a real, so rounding and the
  sign of zero are outside the model.  A decimal too large for a double reads as an
  infinity, which is \<open>JInfinity\<close> with the sign.  A JavaScript string is a list of code
  units (\<^typ>\<open>nat\<close>); a text to be parsed is a \<^typ>\<open>string\<close>.
\<close>

datatype error = SyntaxError | TypeError

datatype json =
    JNull
  | JBool bool
  | JNum real
  | JInfinity bool
  | JStr "nat list"
  | JArr "json list"
  | JObj "(nat list \<times> json) list"

datatype token = TLBrack | TRBrack | TLBrace | TRBrace | TComma | TColon | TScalar json

datatype lexmode =
    Idle
  | InWord string
  | InString "nat list"
  | InEscape "nat list"
  | InUnicode "nat list" "nat list"

definition is_ws :: "char \<Rightarrow> bool" where
  "is_ws c = (of_char c \<in> {32, 9, 10, 13 :: nat})"

definition is_digit :: "char \<Rightarrow> bool" where
  "is_digit c = (48 \<le> (of_char c :: nat) \<and> (of_char c :: nat) \<le> 57)"

definition is_letter :: "char \<Rightarrow> bool" where
  "is_letter c = ((65 \<le> (of_char c :: nat) \<and> (of_char c :: nat) \<le> 90)
     \<or> (97 \<le> (of_char c :: nat) \<and> (of_char c :: nat) \<le> 122))"

definition is_word_char :: "char \<Rightarrow> bool" where
  "is_word_char c = (is_digit c \<or> is_letter c \<or> c = CHR ''+'' \<or> c = CHR ''-'' \<or> c = CHR ''.'')"

definition digit_val :: "char \<Rightarrow> nat" where
  "digit_val c = of_char c - 48"

definition hex_val :: "char \<Rightarrow> nat option" where
  "hex_val c = (let n = (of_char c :: nat) in
     if 48 \<le> n \<and> n \<le> 57 then Some (n - 48)
     else if 65 \<le> n \<and> n \<le> 70 then Some (n - 55)
     else if 97 \<le> n \<and> n \<le> 102 then Some (n - 87)
     else None)"

definition nat_of_digits :: "string \<Rightarrow> nat" where
  "nat_of_digits ds = foldl (\<lambda>n c. 10 * n + digit_val c) 0 ds"

text \<open>
  A number lexeme: an optional minus, an integer part without a leading zero, an optional
  fraction and an optional exponent, and nothing after them.
\<close>

definition int_part_ok :: "string \<Rightarrow> bool" where
  "int_part_ok ds = (case ds of [] \<Rightarrow> False | d # r \<Rightarrow> d \<noteq> CHR ''0'' \<or> r = [])"

definition exponent_of :: "string \<Rightarrow> int option" where
  "exponent_of cs =
     (case cs of
        [] \<Rightarrow> Some 0
      | c # r \<Rightarrow>
          if c = CHR ''e'' \<or> c = CHR ''E'' then
            (let neg = (case r of [] \<Rightarrow> False | s # _ \<Rightarrow> s = CHR ''-'');
                 ds = (case r of [] \<Rightarrow> []
                       | s # r' \<Rightarrow> if s = CHR ''+'' \<or> s = CHR ''-'' then r' else r)
             in if ds = [] \<or> \<not> list_all is_digit ds then None
                else Some (if neg then - int (nat_of_digits ds) else int (nat_of_digits ds)))
          else None)"

definition scale10 :: "real \<Rightarrow> int \<Rightarrow> real" where
  "scale10 v e =
     (if e < 0 then v / real_of_int (10 ^ nat (- e)) else v * real_of_int (10 ^ nat e))"

definition number_of :: "string \<Rightarrow> real option" where
  "number_of w =
     (let neg = (case w of [] \<Rightarrow> False | c # _ \<Rightarrow> c = CHR ''-'');
          u = (if neg then tl w else w);
          ip = takeWhile is_digit u;
          r1 = dropWhile is_digit u;
          dotted = (case r1 of [] \<Rightarrow> False | c # _ \<Rightarrow> c = CHR ''.'');
          fp = (if dotted then takeWhile is_digit (tl r1) else []);
          r2 = (if dotted then dropWhile is_digit (tl r1) else r1)
      in if \<not> int_part_ok ip \<or> (dotted \<and> fp = []) then None
         else (case exponent_of r2 of
                 None \<Rightarrow> None
               | Some e \<Rightarrow>
                   (let m = real (nat_of_digits ip) + real (nat_of_digits fp) / 10 ^ length fp
                    in Some (scale10 (if neg then - m else m) e))))"

text \<open>
  Rounding to the nearest double overflows from \<open>2 ^ 1024 - 2 ^ 970\<close> on, half way
  between the largest double and \<open>2 ^ 1024\<close>.  The bound is written out so that it can
  be compared with.
\<close>

definition overflow_bound :: real where
  "overflow_bound =
     179769313486231580793728971405303415079934132710037826936173778980444968292764750946649017977587207096330286416692887910946555547851940402630657488671505820681908902000708383676273854845817711531764475730270069855571366959622842914819860834936475292719074168444365510704342711559699508093042880177904174497792"

definition overflows :: "real \<Rightarrow> bool" where
  "overflows r = (overflow_bound \<le> \<bar>r\<bar>)"

definition number_value :: "real \<Rightarrow> json" where
  "number_value r = (if overflows r then JInfinity (r < 0) else JNum r)"

definition word_token :: "string \<Rightarrow> token option" where
  "word_token w =
     (if w = ''true'' then Some (TScalar (JBool True))
      else if w = ''false'' then Some (TScalar (JBool False))
      else if w = ''null'' then Some (TScalar JNull)
      else map_option (\<lambda>r. TScalar (number_value r)) (number_of w))"

definition idle_char :: "char \<Rightarrow> (token list \<times> lexmode) option" where
  "idle_char c =
     (if is_ws c then Some ([], Idle)
      else if c = CHR ''['' then Some ([TLBrack], Idle)
      else if c = CHR '']'' then Some ([TRBrack], Idle)
      else if c = CHR ''{'' then Some ([TLBrace], Idle)
      else if c = CHR ''}'' then Some ([TRBrace], Idle)
      else if c = CHR '','' then Some ([TComma], Idle)
      else if c = CHR '':'' then Some ([TColon], Idle)
      else if c = CHR 0x22 then Some ([], InString [])
      else if is_word_char c then Some ([], InWord [c])
      else None)"

fun lex_step :: "lexmode \<Rightarrow> char \<Rightarrow> (token list \<times> lexmode) option" where
  "lex_step Idle c = idle_char c"
| "lex_step (InWord w) c =
     (if is_word_char c then Some ([], InWord (w @ [c]))
      else (case word_token w of
              None \<Rightarrow> None
            | Some t \<Rightarrow> map_option (\<lambda>(ts, m). (t # ts, m)) (idle_char c)))"
| "lex_step (InString acc) c =
     (if c = CHR 0x22 then Some ([TScalar (JStr acc)], Idle)
      else if c = CHR 0x5C then Some ([], InEscape acc)
      else if (of_char c :: nat) < 32 then None
      else Some ([], InString (acc @ [of_char c])))"
| "lex_step (InEscape acc) c =
     (if c = CHR 0x22 \<or> c = CHR 0x5C \<or> c = CHR ''/'' then Some ([], InString (acc @ [of_char c]))
      else if c = CHR ''b'' then Some ([], InString (acc @ [8]))
      else if c = CHR ''f'' then Some ([], InString (acc @ [12]))
      else if c = CHR ''n'' then Some ([], InString (acc @ [10]))
      else if c = CHR ''r'' then Some ([], InString (acc @ [13]))
      else if c = CHR ''t'' then Some ([], InString (acc @ [9]))
      else if c = CHR ''u'' then Some ([], InUnicode acc [])
      else None)"
| "lex_step (InUnicode acc hs) c =
     (case hex_val c of
        None \<Rightarrow> None
      | Some h \<Rightarrow>
          if length hs = 3 then Some ([], InString (acc @ [foldl (\<lambda>n d. 16 * n + d) 0 (hs @ [h])]))
          else Some ([], InUnicode acc (hs @ [h])))"

fun lex_end :: "lexmode \<Rightarrow> token list option" where
  "lex_end Idle = Some []"
| "lex_end (InWord w) = map_option (\<lambda>t. [t]) (word_token w)"
| "lex_end _ = None"

fun lex :: "lexmode \<Rightarrow> string \<Rightarrow> token list option" where
  "lex m [] = lex_end m"
| "lex m (c # cs) =
     (case lex_step m c of
        None \<Rightarrow> None
      | Some (ts, m') \<Rightarrow> map_option (\<lambda>r. ts @ r) (lex m' cs))"

text \<open>
  The grammar over tokens.  \<open>parse_value\<close> expects a value, \<open>parse_key\<close> a member of an
  object (a string, a colon, a value), and \<open>parse_after\<close> continues once a value is
  complete; the stack holds the arrays and objects that are still open.
\<close>

datatype open_frame = ArrF "json list" | ObjF "(nat list \<times> json) list" "nat list"

fun parse_value :: "open_frame list \<Rightarrow> token list \<Rightarrow> json option"
  and parse_key :: "(nat list \<times> json) list \<Rightarrow> open_frame list \<Rightarrow> token list \<Rightarrow> json option"
  and parse_after :: "json \<Rightarrow> open_frame list \<Rightarrow> token list \<Rightarrow> json option" where
  "parse_value st [] = None"
| "parse_value st (TScalar v # ts) = parse_after v st ts"
| "parse_value st (TLBrack # ts) =
     (case ts of
        TRBrack # ts' \<Rightarrow> parse_after (JArr []) st ts'
      | _ \<Rightarrow> parse_value (ArrF [] # st) ts)"
| "parse_value st (TLBrace # ts) =
     (case ts of
        TRBrace # ts' \<Rightarrow> parse_after (JObj []) st ts'
      | _ \<Rightarrow> parse_key [] st ts)"
| "parse_value st (TRBrack # ts) = None"
| "parse_value st (TRBrace # ts) = None"
| "parse_value st (TComma # ts) = None"
| "parse_value st (TColon # ts) = None"
| "parse_key ms st (TScalar (JStr k) # TColon # ts) = parse_value (ObjF ms k # st) ts"
| "parse_key ms st ts = None"
| "parse_after v [] ts = (if ts = [] then Some v else None)"
| "parse_after v (ArrF xs # st) ts =
     (case ts of
        TComma # ts' \<Rightarrow> parse_value (ArrF (xs @ [v]) # st) ts'
      | TRBrack # ts' \<Rightarrow> parse_after (JArr (xs @ [v])) st ts'
      | _ \<Rightarrow> None)"
| "parse_after v (ObjF ms k # st) ts =
     (case ts of
        TComma # ts' \<Rightarrow> parse_key (ms @ [(k, v)]) st ts'
      | TRBrace # ts' \<Rightarrow> parse_after (JObj (ms @ [(k, v)])) st ts'
      | _ \<Rightarrow> None)"

definition JSON_parse :: "string \<Rightarrow> error + json" where
  "JSON_parse s =
     (case lex Idle s of
        None \<Rightarrow> Inl SyntaxError
      | Some ts \<Rightarrow> (case parse_value [] ts of None \<Rightarrow> Inl SyntaxError | Some v \<Rightarrow> Inr v))"

section \<open>The camera of the rendering library\<close>

text \<open>
  The component consumes three.js: a \<^verbatim>\<open>PerspectiveCamera\<close> holds a position, a
  quaternion, a scale and a local matrix of sixteen numbers in column-major order.  The
  projection parameters (field of view, aspect, clipping planes) are not part of this
  model.  The quaternion is \<open>None\<close> when three.js computes it as not-a-number.
\<close>

datatype vec3 = Vec3 (vx: real) (vy: real) (vz: real)

datatype quat = Quat (qx: real) (qy: real) (qz: real) (qw: real)

record camera =
  position :: vec3
  quaternion :: "quat option"
  scale :: vec3
  matrix :: "real list"

definition identity4 :: "real list" where
  "identity4 = [1, 0, 0, 0,  0, 1, 0, 0,  0, 0, 1, 0,  0, 0, 0, 1]"

text \<open>\<^verbatim>\<open>new THREE.PerspectiveCamera(100, aspect, 1, 1000)\<close>: an object at the origin.\<close>

definition PerspectiveCamera :: camera where
  "PerspectiveCamera =
     \<lparr>position = Vec3 0 0 0, quaternion = Some (Quat 0 0 0 1), scale = Vec3 1 1 1,
      matrix = identity4\<rparr>"

text \<open>
  \<^verbatim>\<open>array[i]\<close> on a value that \<^verbatim>\<open>JSON.parse\<close> returned: \<open>None\<close> is
  \<^verbatim>\<open>undefined\<close>.  Reading a property of \<^verbatim>\<open>null\<close> raises \<^verbatim>\<open>TypeError\<close>; this is
  the case \<open>JNull\<close> of \<open>fromArray\<close>.  In an object the last member of a name wins.
\<close>

definition decimal :: "nat \<Rightarrow> nat list" where
  "decimal i = (if i < 10 then [48 + i] else [48 + i div 10, 48 + i mod 10])"

fun index :: "json \<Rightarrow> nat \<Rightarrow> json option" where
  "index (JArr xs) i = (if i < length xs then Some (xs ! i) else None)"
| "index (JStr s) i = (if i < length s then Some (JStr [s ! i]) else None)"
| "index (JObj ms) i = map_of (rev ms) (decimal i)"
| "index _ i = None"

text \<open>
  \<^verbatim>\<open>Matrix4.fromArray(array)\<close> copies \<^verbatim>\<open>array[0]\<close> to \<^verbatim>\<open>array[15]\<close> into the
  matrix elements, whatever they are.
\<close>

definition fromArray :: "json \<Rightarrow> error + json option list" where
  "fromArray a = (if a = JNull then Inl TypeError else Inr (map (index a) [0..<16]))"

text \<open>
  The camera of this model holds finite numbers.  \<open>numbers\<close> yields the sixteen elements
  when each of them is one, and \<open>None\<close> when one is \<^verbatim>\<open>undefined\<close>, an infinity or a
  value of another type.
\<close>

fun number :: "json option \<Rightarrow> real option" where
  "number (Some (JNum r)) = Some r"
| "number _ = None"

definition numbers :: "json option list \<Rightarrow> real list option" where
  "numbers es = (if list_all (\<lambda>e. number e \<noteq> None) es then Some (map (\<lambda>e. the (number e)) es) else None)"

text \<open>\<^verbatim>\<open>Matrix4.determinant()\<close>.\<close>

definition determinant :: "real list \<Rightarrow> real" where
  "determinant te =
     (let n11 = te ! 0; n12 = te ! 4; n13 = te ! 8; n14 = te ! 12;
          n21 = te ! 1; n22 = te ! 5; n23 = te ! 9; n24 = te ! 13;
          n31 = te ! 2; n32 = te ! 6; n33 = te ! 10; n34 = te ! 14;
          n41 = te ! 3; n42 = te ! 7; n43 = te ! 11; n44 = te ! 15
      in n41 * (n14 * n23 * n32 - n13 * n24 * n32 - n14 * n22 * n33
                + n12 * n24 * n33 + n13 * n22 * n34 - n12 * n23 * n34)
       + n42 * (n11 * n23 * n34 - n11 * n24 * n33 + n14 * n21 * n33
                - n13 * n21 * n34 + n13 * n24 * n31 - n14 * n23 * n31)
       + n43 * (n11 * n24 * n32 - n11 * n22 * n34 - n14 * n21 * n32
                + n12 * n21 * n34 + n14 * n22 * n31 - n12 * n24 * n31)
       + n44 * (- n13 * n22 * n31 - n11 * n23 * n32 + n11 * n22 * n33
                + n13 * n21 * n32 - n12 * n21 * n33 + n12 * n23 * n31))"

text \<open>\<^verbatim>\<open>Quaternion.setFromRotationMatrix(m)\<close>, on the upper 3x3 part of \<open>m\<close>.\<close>

definition setFromRotationMatrix :: "real list \<Rightarrow> quat" where
  "setFromRotationMatrix te =
     (let m11 = te ! 0; m12 = te ! 4; m13 = te ! 8;
          m21 = te ! 1; m22 = te ! 5; m23 = te ! 9;
          m31 = te ! 2; m32 = te ! 6; m33 = te ! 10;
          trace = m11 + m22 + m33
      in if trace > 0 then
           (let s = 0.5 / sqrt (trace + 1)
            in Quat ((m32 - m23) * s) ((m13 - m31) * s) ((m21 - m12) * s) (0.25 / s))
         else if m11 > m22 \<and> m11 > m33 then
           (let s = 2 * sqrt (1 + m11 - m22 - m33)
            in Quat (0.25 * s) ((m12 + m21) / s) ((m13 + m31) / s) ((m32 - m23) / s))
         else if m22 > m33 then
           (let s = 2 * sqrt (1 + m22 - m11 - m33)
            in Quat ((m12 + m21) / s) (0.25 * s) ((m23 + m32) / s) ((m13 - m31) / s))
         else
           (let s = 2 * sqrt (1 + m33 - m11 - m22)
            in Quat ((m13 + m31) / s) ((m23 + m32) / s) (0.25 * s) ((m21 - m12) / s)))"

definition length3 :: "real \<Rightarrow> real \<Rightarrow> real \<Rightarrow> real" where
  "length3 a b c = sqrt (a * a + b * b + c * c)"

text \<open>
  \<^verbatim>\<open>Matrix4.decompose(position, quaternion, scale)\<close>: the position is the fourth
  column, the scale the lengths of the first three (the first negated under a negative
  determinant), the quaternion that of the rotation part with its columns divided by the
  scale.  A column of length zero makes three.js divide by zero and the quaternion
  not-a-number.  The matrix itself is not written.
\<close>

definition decompose :: "real list \<Rightarrow> vec3 \<times> quat option \<times> vec3" where
  "decompose te =
     (let sx0 = length3 (te ! 0) (te ! 1) (te ! 2);
          sy = length3 (te ! 4) (te ! 5) (te ! 6);
          sz = length3 (te ! 8) (te ! 9) (te ! 10);
          sx = (if determinant te < 0 then - sx0 else sx0);
          m1 = [te ! 0 / sx, te ! 1 / sx, te ! 2 / sx, te ! 3,
                te ! 4 / sy, te ! 5 / sy, te ! 6 / sy, te ! 7,
                te ! 8 / sz, te ! 9 / sz, te ! 10 / sz, te ! 11,
                te ! 12, te ! 13, te ! 14, te ! 15]
      in (Vec3 (te ! 12) (te ! 13) (te ! 14),
          (if sx = 0 \<or> sy = 0 \<or> sz = 0 then None else Some (setFromRotationMatrix m1)),
          Vec3 sx sy sz))"

text \<open>
  \<^verbatim>\<open>Matrix4.compose(position, quaternion, scale)\<close>: the matrix of a position, a
  quaternion and a scale.  \<^verbatim>\<open>Object3D.updateMatrix()\<close> sets the local matrix of the
  camera to it.
\<close>

definition compose :: "vec3 \<Rightarrow> quat \<Rightarrow> vec3 \<Rightarrow> real list" where
  "compose p q s =
     (let x = qx q; y = qy q; z = qz q; w = qw q;
          x2 = x + x; y2 = y + y; z2 = z + z;
          xx = x * x2; xy = x * y2; xz = x * z2;
          yy = y * y2; yz = y * z2; zz = z * z2;
          wx = w * x2; wy = w * y2; wz = w * z2;
          sx = vx s; sy = vy s; sz = vz s
      in [(1 - (yy + zz)) * sx, (xy + wz) * sx, (xz - wy) * sx, 0,
          (xy - wz) * sy, (1 - (xx + zz)) * sy, (yz + wx) * sy, 0,
          (xz + wy) * sz, (yz - wx) * sz, (1 - (xx + yy)) * sz, 0,
          vx p, vy p, vz p, 1])"


definition neg :: "quat \<Rightarrow> quat" where
  "neg q = Quat (- qx q) (- qy q) (- qz q) (- qw q)"

text \<open>
  The camera held by the component: not yet constructed, constructed, or constructed
  with a field that is not a finite number, as after a restore from a stored value of the
  wrong shape; its fields are then no longer tracked.
\<close>

datatype cam_slot = NoCamera | Camera camera | Untracked

fun on_camera :: "(camera \<Rightarrow> camera) \<Rightarrow> cam_slot \<Rightarrow> cam_slot" where
  "on_camera f (Camera c) = Camera (f c)"
| "on_camera f slot = slot"

fun orientation :: "cam_slot \<Rightarrow> quat option" where
  "orientation (Camera c) = quaternion c"
| "orientation slot = None"

text \<open>
  \<^verbatim>\<open>camera.updateMatrixWorld()\<close>, which the renderer calls on a camera without a
  parent before it draws: the matrix is composed anew.  A quaternion that is not a number
  gives a matrix that holds no numbers.
\<close>

fun updateMatrixWorld :: "cam_slot \<Rightarrow> cam_slot" where
  "updateMatrixWorld (Camera c) =
     (case quaternion c of
        Some q \<Rightarrow> Camera (c\<lparr>matrix := compose (position c) q (scale c)\<rparr>)
      | None \<Rightarrow> Untracked)"
| "updateMatrixWorld slot = slot"

subsection \<open>The orbit controls without input\<close>

text \<open>
  \<^verbatim>\<open>OrbitControls.update()\<close> while no pointer, wheel or key input has reached the
  controls: the camera is put back on its orbit around the target and turned to look at
  it.  The offset from the target goes through spherical coordinates, whose polar angle is
  kept \<open>10\<^sup>-\<^sup>6\<close> away from the poles; the azimuth is \<^verbatim>\<open>atan2(x, z)\<close>, of which only
  the sine \<open>x / \<rho>\<close> and the cosine \<open>z / \<rho>\<close> are needed.  The up vector of the camera is
  the y axis.
\<close>

definition sub3 :: "vec3 \<Rightarrow> vec3 \<Rightarrow> vec3" where
  "sub3 a b = Vec3 (vx a - vx b) (vy a - vy b) (vz a - vz b)"

definition add3 :: "vec3 \<Rightarrow> vec3 \<Rightarrow> vec3" where
  "add3 a b = Vec3 (vx a + vx b) (vy a + vy b) (vz a + vz b)"

definition cross :: "vec3 \<Rightarrow> vec3 \<Rightarrow> vec3" where
  "cross a b =
     Vec3 (vy a * vz b - vz a * vy b) (vz a * vx b - vx a * vz b) (vx a * vy b - vy a * vx b)"

definition lengthSq :: "vec3 \<Rightarrow> real" where
  "lengthSq a = vx a * vx a + vy a * vy a + vz a * vz a"

text \<open>\<^verbatim>\<open>Vector3.normalize()\<close> divides by the length, or by one when the length is zero.\<close>

definition normalize :: "vec3 \<Rightarrow> vec3" where
  "normalize a =
     (let l = sqrt (lengthSq a); d = (if l = 0 then 1 else l)
      in Vec3 (vx a / d) (vy a / d) (vz a / d))"

definition EPS :: real where
  "EPS = 1 / 1000000"

definition clamp :: "real \<Rightarrow> real \<Rightarrow> real \<Rightarrow> real" where
  "clamp v lo hi = max lo (min hi v)"

definition orbit_offset :: "vec3 \<Rightarrow> vec3" where
  "orbit_offset v =
     (let radius = sqrt (lengthSq v);
          phi = (if radius = 0 then 0 else arccos (clamp (vy v / radius) (- 1) 1));
          safe = max EPS (min (pi - EPS) (max 0 (min pi phi)));
          rho = sqrt (vx v * vx v + vz v * vz v);
          sin_theta = (if radius = 0 \<or> rho = 0 then 0 else vx v / rho);
          cos_theta = (if radius = 0 \<or> rho = 0 then 1 else vz v / rho);
          sinPhiRadius = sin safe * radius
      in Vec3 (sinPhiRadius * sin_theta) (cos safe * radius) (sinPhiRadius * cos_theta))"

text \<open>
  \<^verbatim>\<open>Matrix4.lookAt(eye, target, up)\<close>: the rotation whose z axis points from the
  target to the eye.
\<close>

definition lookAt_rotation :: "vec3 \<Rightarrow> vec3 \<Rightarrow> vec3 \<Rightarrow> real list" where
  "lookAt_rotation eye target up =
     (let z0 = sub3 eye target;
          z1 = normalize (if lengthSq z0 = 0 then Vec3 (vx z0) (vy z0) 1 else z0);
          z2 = (if lengthSq (cross up z1) = 0
                then normalize (if \<bar>vz up\<bar> = 1 then Vec3 (vx z1 + 1 / 10000) (vy z1) (vz z1)
                                else Vec3 (vx z1) (vy z1) (vz z1 + 1 / 10000))
                else z1);
          x1 = normalize (cross up z2);
          y1 = cross z2 x1
      in [vx x1, vy x1, vz x1, 0,  vx y1, vy y1, vz y1, 0,  vx z2, vy z2, vz z2, 0,  0, 0, 0, 1])"

text \<open>
  \<^verbatim>\<open>Object3D.lookAt(target)\<close> on a camera: the matrix is composed from the fields as
  they are, then the quaternion is set.  A camera whose quaternion is not a number is
  outside this function: its matrix would hold no numbers, and it is left as it is.
\<close>

definition lookAt :: "vec3 \<Rightarrow> camera \<Rightarrow> camera" where
  "lookAt target c =
     (case quaternion c of
        None \<Rightarrow> c
      | Some q \<Rightarrow>
          c\<lparr>matrix := compose (position c) q (scale c),
            quaternion := Some (setFromRotationMatrix
              (lookAt_rotation (position c) target (Vec3 0 1 0)))\<rparr>)"

definition orbit_update :: "vec3 \<Rightarrow> camera \<Rightarrow> camera" where
  "orbit_update target c =
     lookAt target (c\<lparr>position := add3 target (orbit_offset (sub3 (position c) target))\<rparr>)"

text \<open>
  What \<^verbatim>\<open>createControls\<close> does to the camera: the constructor of the controls updates
  once, around the origin; the target is then set to (0, 0.5, 0) and
  \<^verbatim>\<open>this.controls.update()\<close> updates again.
\<close>

definition controls_created :: "camera \<Rightarrow> camera" where
  "controls_created c = orbit_update (Vec3 0 (1 / 2) 0) (orbit_update (Vec3 0 0 0) c)"


section \<open>The scene component\<close>

text \<open>
  \<^verbatim>\<open>BookSceneComponent\<close> of \<^verbatim>\<open>src/client/app/scene/book/book.component.ts\<close>.
  Its fields are those of the class; a resource of the rendering library is unset,
  live or disposed.  The scene counts the models added to it.  The last five fields are
  the environment the component acts on: the persistence reads and writes it issued, the
  asset requests, the frame callbacks that are scheduled and the frames rendered.
\<close>

datatype resource = Unset | Live | Disposed

datatype jsnum = Finite real | Infinity | NaN

text \<open>
  The argument of a persistence write is \<^verbatim>\<open>JSON.stringify(this.camera.matrix.toArray())\<close>;
  the model records the array that is serialized.  The service that writes is not under
  src: one call of its \<^verbatim>\<open>setCameraState\<close>, subscribed once, is one write.
\<close>

datatype payload = Stringify "real list" | Stringify_untracked

record component =
  camera :: cam_slot
  renderer :: resource
  pmremGenerator :: resource
  controls :: resource
  dracoLoader :: resource
  scene :: "nat option"
  mixer :: bool
  loadingProgress :: "jsnum option"
  loadingState :: bool
  cameraState :: "string option"
  reads :: nat
  writes :: "payload list"
  asset_requests :: nat
  raf_pending :: nat
  rendered :: nat

definition constructed :: component where
  "constructed =
     \<lparr>camera = NoCamera, renderer = Unset, pmremGenerator = Unset, controls = Unset,
      dracoLoader = Unset, scene = None, mixer = False, loadingProgress = Some (Finite 1),
      loadingState = True, cameraState = None, reads = 0, writes = [], asset_requests = 0,
      raf_pending = 0, rendered = 0\<rparr>"

text \<open>
  A handler returns the component as it left it and the exception it raised, if any.
  \<open>then_do\<close> is the semicolon: a statement after a raise is not executed.
\<close>

type_synonym outcome = "component \<times> error option"

definition then_do :: "outcome \<Rightarrow> (component \<Rightarrow> outcome) \<Rightarrow> outcome" where
  "then_do r f = (case snd r of None \<Rightarrow> f (fst r) | Some e \<Rightarrow> r)"

subsection \<open>Keyboard\<close>

text \<open>
  The enumeration \<^verbatim>\<open>KEY_CODE\<close> is declared in \<^verbatim>\<open>client/app/share\<close>, which is not
  under src: its four members are a parameter of the handler.
\<close>

record key_code =
  RIGHT_ARROW :: string
  LEFT_ARROW :: string
  UP_ARROW :: string
  DOWN_ARROW :: string

definition add_x :: "real \<Rightarrow> camera \<Rightarrow> camera" where
  "add_x d c = c\<lparr>position := Vec3 (vx (position c) + d) (vy (position c)) (vz (position c))\<rparr>"

definition add_y :: "real \<Rightarrow> camera \<Rightarrow> camera" where
  "add_y d c = c\<lparr>position := Vec3 (vx (position c)) (vy (position c) + d) (vz (position c))\<rparr>"

definition keyEvent :: "key_code \<Rightarrow> string \<Rightarrow> component \<Rightarrow> component" where
  "keyEvent K key s =
     (if camera s = NoCamera then s
      else if key = RIGHT_ARROW K then s\<lparr>camera := on_camera (add_x 5) (camera s)\<rparr>
      else if key = LEFT_ARROW K then s\<lparr>camera := on_camera (add_x (- 5)) (camera s)\<rparr>
      else if key = UP_ARROW K then s\<lparr>camera := on_camera (add_y 5) (camera s)\<rparr>
      else if key = DOWN_ARROW K then s\<lparr>camera := on_camera (add_y (- 5)) (camera s)\<rparr>
      else s)"

subsection \<open>Restoring and saving the camera\<close>

text \<open>
  \<^verbatim>\<open>this.camera.matrix.fromArray(...)\<close> followed by
  \<^verbatim>\<open>this.camera.matrix.decompose(position, quaternion, scale)\<close>: the first call writes
  the matrix and the second the position, the quaternion and the scale, so every field of
  the camera is written and a camera that was no longer tracked holds numbers again.
\<close>

definition restore :: "real list \<Rightarrow> camera" where
  "restore te =
     (case decompose te of
        (p, q, sc) \<Rightarrow> \<lparr>position = p, quaternion = q, scale = sc, matrix = te\<rparr>)"

definition default_position :: "camera \<Rightarrow> camera" where
  "default_position c = c\<lparr>position := Vec3 15 30 70\<rparr>"

text \<open>\<^verbatim>\<open>if (this.cameraState)\<close>: \<^verbatim>\<open>undefined\<close>, \<^verbatim>\<open>null\<close> and the empty string are falsy.\<close>

definition truthy :: "string option \<Rightarrow> bool" where
  "truthy v = (case v of None \<Rightarrow> False | Some str \<Rightarrow> str \<noteq> [])"

definition setCameraState :: "component \<Rightarrow> outcome" where
  "setCameraState s =
     (if camera s = NoCamera then (s, Some TypeError)
      else if truthy (cameraState s) then
        (case JSON_parse (the (cameraState s)) of
           Inl e \<Rightarrow> (s, Some e)
         | Inr a \<Rightarrow>
             (case fromArray a of
                Inl e \<Rightarrow> (s, Some e)
              | Inr es \<Rightarrow>
                  (case numbers es of
                     None \<Rightarrow> (s\<lparr>camera := Untracked\<rparr>, None)
                   | Some te \<Rightarrow> (s\<lparr>camera := Camera (restore te)\<rparr>, None))))
      else (s\<lparr>camera := on_camera default_position (camera s)\<rparr>, None))"

definition saveCurrentScene :: "component \<Rightarrow> outcome" where
  "saveCurrentScene s =
     (case camera s of
        NoCamera \<Rightarrow> (s, Some TypeError)
      | Camera c \<Rightarrow> (s\<lparr>writes := writes s @ [Stringify (matrix c)]\<rparr>, None)
      | Untracked \<Rightarrow> (s\<lparr>writes := writes s @ [Stringify_untracked]\<rparr>, None))"

definition beforeunloadHandler :: "component \<Rightarrow> outcome" where
  "beforeunloadHandler s = saveCurrentScene s"

subsection \<open>The camera-state lookup\<close>

text \<open>
  Modelled from the spec: the interface \<^verbatim>\<open>ISceneState\<close> and the service
  \<^verbatim>\<open>SceneService\<close> are not under src.  A scene state is
  \<^verbatim>\<open>{ cameraPosition: string | null }\<close>.  The observable of \<^verbatim>\<open>getCameraState()\<close>,
  piped through \<^verbatim>\<open>take(1)\<close>, ends in one of three ways: it emits a value and completes,
  it completes without a value, or it fails.
\<close>

record ISceneState =
  cameraPosition :: "string option"

datatype lookup = Emits "ISceneState option" | Empty | Fails

definition ngOnInit :: "component \<Rightarrow> component" where
  "ngOnInit s = s\<lparr>reads := reads s + 1\<rparr>"

text \<open>
  \<^verbatim>\<open>this.cameraState = state?.cameraPosition || null\<close>: a state that is
  \<^verbatim>\<open>null\<close>, or whose position is \<^verbatim>\<open>null\<close> or the empty string, gives \<^verbatim>\<open>null\<close>.
\<close>

definition cameraPosition_or_null :: "ISceneState option \<Rightarrow> string option" where
  "cameraPosition_or_null state =
     (case state of
        None \<Rightarrow> None
      | Some st \<Rightarrow> if truthy (cameraPosition st) then cameraPosition st else None)"

definition on_next :: "ISceneState option \<Rightarrow> component \<Rightarrow> component" where
  "on_next state s = s\<lparr>cameraState := cameraPosition_or_null state\<rparr>"

definition on_error :: "component \<Rightarrow> component" where
  "on_error s = s"

definition on_complete :: "component \<Rightarrow> outcome" where
  "on_complete s =
     (let s1 = s\<lparr>loadingState := False\<rparr>
      in if camera s1 \<noteq> NoCamera then setCameraState s1 else (s1, None))"

fun subscriber :: "lookup \<Rightarrow> component \<Rightarrow> outcome" where
  "subscriber (Emits state) s = on_complete (on_next state s)"
| "subscriber Empty s = on_complete s"
| "subscriber Fails s = (on_error s, None)"

subsection \<open>Setting up the view\<close>

definition createRenderer :: "component \<Rightarrow> component" where
  "createRenderer s = s\<lparr>renderer := Live, pmremGenerator := Live\<rparr>"

text \<open>
  \<^verbatim>\<open>createScene\<close> makes the scene, reads the environment from the generator that
  \<^verbatim>\<open>createRenderer\<close> made, constructs the camera and sets its state.
\<close>

definition createScene :: "component \<Rightarrow> outcome" where
  "createScene s =
     (let s1 = s\<lparr>scene := Some 0\<rparr>
      in if pmremGenerator s1 = Unset then (s1, Some TypeError)
         else setCameraState (s1\<lparr>camera := Camera PerspectiveCamera\<rparr>))"

text \<open>
  \<^verbatim>\<open>OrbitControls\<close> reads the camera it is bound to when it is constructed and moves
  it whenever it updates.  What it does to the camera is the library's: the function \<open>u\<close>
  stands for it.
\<close>

definition createControls :: "(camera \<Rightarrow> camera) \<Rightarrow> component \<Rightarrow> outcome" where
  "createControls u s =
     (if camera s = NoCamera then (s, Some TypeError)
      else (s\<lparr>controls := Live, camera := on_camera u (camera s)\<rparr>, None))"

definition createLoader :: "component \<Rightarrow> component" where
  "createLoader s = s\<lparr>dracoLoader := Live, asset_requests := asset_requests s + 1\<rparr>"

definition ngAfterViewInit :: "(camera \<Rightarrow> camera) \<Rightarrow> component \<Rightarrow> outcome" where
  "ngAfterViewInit u s =
     then_do (then_do (createScene (createRenderer s)) (createControls u))
       (\<lambda>s1. (createLoader s1, None))"

subsection \<open>Loading the asset and rendering\<close>

text \<open>
  \<^verbatim>\<open>(xhr.loaded / xhr.total) * 100\<close> on the byte counts of a progress event, and
  \<^verbatim>\<open>-= 5\<close>.  A total of zero gives an infinity, or not-a-number when nothing is loaded.
\<close>

definition percent :: "nat \<Rightarrow> nat \<Rightarrow> jsnum" where
  "percent bytesLoaded bytesTotal =
     (if bytesTotal = 0 then (if bytesLoaded = 0 then NaN else Infinity)
      else Finite (real bytesLoaded / real bytesTotal * 100))"

fun minus_num :: "jsnum \<Rightarrow> real \<Rightarrow> jsnum" where
  "minus_num (Finite v) d = Finite (v - d)"
| "minus_num Infinity d = Infinity"
| "minus_num NaN d = NaN"

definition on_progress :: "nat \<Rightarrow> nat \<Rightarrow> component \<Rightarrow> component" where
  "on_progress bytesLoaded bytesTotal s =
     (let s1 = s\<lparr>loadingProgress := Some (percent bytesLoaded bytesTotal)\<rparr>
      in if loadingState s1 then s1\<lparr>loadingProgress := Some (minus_num (percent bytesLoaded bytesTotal) 5)\<rparr>
         else s1)"

text \<open>
  The body of \<^verbatim>\<open>render\<close> in \<^verbatim>\<open>animate\<close>: it requests the next frame first, then updates
  the mixer and the controls and renders.  \<open>u\<close> is what the update of the controls does
  to the camera in this frame; the renderer then composes the camera matrix.  A field
  that is still \<^verbatim>\<open>undefined\<close> raises where it is used; a disposed resource is still an
  object and raises nothing.
\<close>

definition render :: "(camera \<Rightarrow> camera) \<Rightarrow> component \<Rightarrow> outcome" where
  "render u s =
     (let s1 = s\<lparr>raf_pending := raf_pending s + 1\<rparr>
      in if \<not> mixer s1 then (s1, Some TypeError)
         else if controls s1 = Unset \<or> camera s1 = NoCamera then (s1, Some TypeError)
         else
           (let s2 = s1\<lparr>camera := on_camera u (camera s1)\<rparr>
            in if renderer s2 = Unset \<or> scene s2 = None then (s2, Some TypeError)
               else (s2\<lparr>camera := updateMatrixWorld (camera s2), rendered := rendered s2 + 1\<rparr>,
                     None)))"

definition animate :: "(camera \<Rightarrow> camera) \<Rightarrow> component \<Rightarrow> outcome" where
  "animate u s = render u s"

text \<open>
  The frame callback runs only when one is scheduled; running it consumes the request
  that scheduled it.
\<close>

definition frame :: "(camera \<Rightarrow> camera) \<Rightarrow> component \<Rightarrow> outcome" where
  "frame u s =
     (if raf_pending s = 0 then (s, None)
      else render u (s\<lparr>raf_pending := raf_pending s - 1\<rparr>))"

text \<open>
  The load callback, for an asset with \<open>n\<close> animation clips.  Without a clip,
  \<^verbatim>\<open>clipAction(undefined)\<close> raises before \<^verbatim>\<open>animate\<close> is reached.
\<close>

definition on_load :: "nat \<Rightarrow> (camera \<Rightarrow> camera) \<Rightarrow> component \<Rightarrow> outcome" where
  "on_load n u s =
     (case scene s of
        None \<Rightarrow> (s, Some TypeError)
      | Some k \<Rightarrow>
          (let s1 = s\<lparr>scene := Some (k + 1), mixer := True\<rparr>
           in if n = 0 then (s1, Some TypeError)
              else then_do (animate u s1) (\<lambda>s2. (s2\<lparr>loadingProgress := None\<rparr>, None))))"

subsection \<open>Disposal\<close>

definition dispose_renderer :: "component \<Rightarrow> outcome" where
  "dispose_renderer s =
     (if renderer s = Unset then (s, Some TypeError) else (s\<lparr>renderer := Disposed\<rparr>, None))"

definition dispose_controls :: "component \<Rightarrow> outcome" where
  "dispose_controls s =
     (if controls s = Unset then (s, Some TypeError) else (s\<lparr>controls := Disposed\<rparr>, None))"

definition dispose_dracoLoader :: "component \<Rightarrow> outcome" where
  "dispose_dracoLoader s =
     (if dracoLoader s = Unset then (s, Some TypeError) else (s\<lparr>dracoLoader := Disposed\<rparr>, None))"

definition dispose_pmremGenerator :: "component \<Rightarrow> outcome" where
  "dispose_pmremGenerator s =
     (if pmremGenerator s = Unset then (s, Some TypeError)
      else (s\<lparr>pmremGenerator := Disposed\<rparr>, None))"

definition ngOnDestroy :: "component \<Rightarrow> outcome" where
  "ngOnDestroy s =
     then_do (then_do (then_do (then_do (saveCurrentScene s) dispose_renderer) dispose_controls)
       dispose_dracoLoader) dispose_pmremGenerator"

subsection \<open>Events\<close>

text \<open>
  The component is driven by the framework's lifecycle hooks, the window's events and the
  callbacks it registered.  An exception that leaves a handler is reported by the
  browser and the next event is handled as usual.  A failed asset load is logged to the
  console and changes nothing in the component.  The resize handler writes only the
  projection of the camera and the size of the renderer, which are not part of this model,
  and has no event here.
\<close>

datatype event =
    NgOnInit
  | LookupDone lookup
  | NgAfterViewInit "camera \<Rightarrow> camera"
  | Progress nat nat
  | AssetLoaded nat "camera \<Rightarrow> camera"
  | AssetError
  | Frame "camera \<Rightarrow> camera"
  | KeyUp string
  | BeforeUnload
  | NgOnDestroy

fun step :: "key_code \<Rightarrow> event \<Rightarrow> component \<Rightarrow> outcome" where
  "step K NgOnInit s = (ngOnInit s, None)"
| "step K (LookupDone r) s = subscriber r s"
| "step K (NgAfterViewInit u) s = ngAfterViewInit u s"
| "step K (Progress bytesLoaded bytesTotal) s = (on_progress bytesLoaded bytesTotal s, None)"
| "step K (AssetLoaded n u) s = on_load n u s"
| "step K AssetError s = (s, None)"
| "step K (Frame u) s = frame u s"
| "step K (KeyUp key) s = (keyEvent K key s, None)"
| "step K BeforeUnload s = beforeunloadHandler s"
| "step K NgOnDestroy s = ngOnDestroy s"

fun run :: "key_code \<Rightarrow> event list \<Rightarrow> component \<Rightarrow> component" where
  "run K [] s = s"
| "run K (e # es) s = run K es (fst (step K e s))"

text \<open>The events whose handling runs the \<^verbatim>\<open>complete\<close> callback of the lookup.\<close>

fun completes :: "event \<Rightarrow> bool" where
  "completes (LookupDone (Emits state)) = True"
| "completes (LookupDone Empty) = True"
| "completes e = False"

text \<open>
  Modelled from the spec: the values of \<^verbatim>\<open>KEY_CODE\<close> are not under src.  For the
  four inputs that the spec names (right, left, up and down arrow) these are the names
  that \<^verbatim>\<open>KeyboardEvent.key\<close> carries; they serve as a concrete instance of the parameter.
\<close>

definition arrow_keys :: key_code where
  "arrow_keys =
     \<lparr>RIGHT_ARROW = ''ArrowRight'', LEFT_ARROW = ''ArrowLeft'', UP_ARROW = ''ArrowUp'',
      DOWN_ARROW = ''ArrowDown''\<rparr>"

section \<open>The route table\<close>

text \<open>
  \<^verbatim>\<open>src/client/app/app-routing.module.ts\<close>.  A route has a path, a match strategy
  (\<^verbatim>\<open>'prefix'\<close> unless \<^verbatim>\<open>pathMatch\<close> says \<^verbatim>\<open>'full'\<close>) and one of a component, a
  lazily loaded module or a redirect.  A URL is the list of its path segments; with
  \<^verbatim>\<open>useHash\<close> these are the segments after the hash.
\<close>

datatype view = AboutComponent | NotFoundComponent

datatype lazy_module = SceneModule

datatype match_strategy = Prefix | Full

datatype action = Component view | LoadChildren lazy_module | RedirectTo string

record route =
  path :: string
  pathMatch :: match_strategy
  action :: action

definition routes :: "route list" where
  "routes =
     [\<lparr>path = ''about'', pathMatch = Prefix, action = Component AboutComponent\<rparr>,
      \<lparr>path = ''scene'', pathMatch = Prefix, action = LoadChildren SceneModule\<rparr>,
      \<lparr>path = ''404'', pathMatch = Prefix, action = Component NotFoundComponent\<rparr>,
      \<lparr>path = [], pathMatch = Full, action = RedirectTo ''scene''\<rparr>,
      \<lparr>path = ''**'', pathMatch = Prefix, action = RedirectTo ''404''\<rparr>]"

text \<open>
  The framework's router reads the table in order and takes the first route that
  matches; a route that matches a prefix but cannot place the remaining segments does not
  match.  \<open>split_slash\<close> is \<^verbatim>\<open>path.split('/')\<close>; a part that starts with a colon is a
  parameter and matches any segment; the path \<^verbatim>\<open>**\<close> matches every URL.
\<close>

fun split_slash :: "string \<Rightarrow> string \<Rightarrow> string list" where
  "split_slash acc [] = [acc]"
| "split_slash acc (c # cs) =
     (if c = CHR ''/'' then acc # split_slash [] cs else split_slash (acc @ [c]) cs)"

definition part_matches :: "string \<Rightarrow> string \<Rightarrow> bool" where
  "part_matches part seg = (case part of [] \<Rightarrow> seg = [] | c # _ \<Rightarrow> c = CHR '':'' \<or> part = seg)"

text \<open>The segments a route consumes and those it leaves, or \<open>None\<close> when it does not match.\<close>

definition match_path :: "route \<Rightarrow> string list \<Rightarrow> (string list \<times> string list) option" where
  "match_path r segs =
     (if path r = ''**'' then Some (segs, [])
      else if path r = [] then
        (if pathMatch r = Full \<and> segs \<noteq> [] then None else Some ([], segs))
      else
        (let parts = split_slash [] (path r); n = length parts
         in if n > length segs then None
            else if pathMatch r = Full \<and> n < length segs then None
            else if list_all2 part_matches parts (take n segs) then Some (take n segs, drop n segs)
            else None))"

text \<open>
  What a URL resolves to: a component to activate, or a lazily loaded module with the
  segments left for its own routes.  The routes of \<^verbatim>\<open>SceneModule\<close> are not under src:
  \<open>accepts m rest\<close> says whether the module \<open>m\<close> has a route for the segments \<open>rest\<close>.
\<close>

datatype resolution = Activates view | Loads lazy_module "string list"

text \<open>Matching without redirects, as the router does after a relative redirect.\<close>

fun expand_plain :: "(lazy_module \<Rightarrow> string list \<Rightarrow> bool) \<Rightarrow> route list \<Rightarrow> string list \<Rightarrow>
    resolution option" where
  "expand_plain accepts [] segs = None"
| "expand_plain accepts (r # rs) segs =
     (case action r of
        RedirectTo t \<Rightarrow> expand_plain accepts rs segs
      | Component v \<Rightarrow>
          (case match_path r segs of
             Some (consumed, []) \<Rightarrow> Some (Activates v)
           | _ \<Rightarrow> expand_plain accepts rs segs)
      | LoadChildren m \<Rightarrow>
          (case match_path r segs of
             Some (consumed, rest) \<Rightarrow>
               if accepts m rest then Some (Loads m rest) else expand_plain accepts rs segs
           | None \<Rightarrow> expand_plain accepts rs segs))"

text \<open>
  Matching with redirects: a redirect puts its target in place of the consumed segments
  and the new URL is matched against the whole table, without further redirects.  The
  result is the URL after redirects and what it resolves to.
\<close>

fun expand :: "(lazy_module \<Rightarrow> string list \<Rightarrow> bool) \<Rightarrow> route list \<Rightarrow> route list \<Rightarrow> string list \<Rightarrow>
    (string list \<times> resolution) option" where
  "expand accepts table [] segs = None"
| "expand accepts table (r # rs) segs =
     (case action r of
        RedirectTo t \<Rightarrow>
          (case match_path r segs of
             None \<Rightarrow> expand accepts table rs segs
           | Some (consumed, rest) \<Rightarrow>
               (let url = split_slash [] t @ rest
                in case expand_plain accepts table url of
                     None \<Rightarrow> expand accepts table rs segs
                   | Some res \<Rightarrow> Some (url, res)))
      | Component v \<Rightarrow>
          (case match_path r segs of
             Some (consumed, []) \<Rightarrow> Some (segs, Activates v)
           | _ \<Rightarrow> expand accepts table rs segs)
      | LoadChildren m \<Rightarrow>
          (case match_path r segs of
             Some (consumed, rest) \<Rightarrow>
               if accepts m rest then Some (segs, Loads m rest) else expand accepts table rs segs
           | None \<Rightarrow> expand accepts table rs segs))"

definition navigate :: "(lazy_module \<Rightarrow> string list \<Rightarrow> bool) \<Rightarrow> string list \<Rightarrow>
    (string list \<times> resolution) option" where
  "navigate accepts segs = expand accepts routes routes segs"


section \<open>Facts about the handlers\<close>

lemma JSON_parse_Nil [simp]: "JSON_parse [] = Inl SyntaxError"
  by (simp add: JSON_parse_def)

lemma fromArray_numbers:
  assumes "length T = 16"
  shows "fromArray (JArr (map JNum T)) = Inr (map (\<lambda>r. Some (JNum r)) T)"
proof -
  have "map (index (JArr (map JNum T))) [0..<length T] = map (\<lambda>r. Some (JNum r)) T"
    by (rule nth_equalityI) simp_all
  with assms show ?thesis
    by (simp add: fromArray_def)
qed

lemma numbers_of_numbers: "numbers (map (\<lambda>r. Some (JNum r)) T) = Some T"
  by (simp add: numbers_def list_all_iff comp_def)


lemma matrix_restore: "matrix (restore T) = T"
  by (simp add: restore_def split: prod.splits)

lemma position_restore: "position (restore T) = Vec3 (T ! 12) (T ! 13) (T ! 14)"
  by (simp add: restore_def decompose_def Let_def split: prod.splits)

text \<open>Sample texts, read by the JSON reader.\<close>

lemma parse_abc: "JSON_parse ''abc'' = Inl SyntaxError"
  by code_simp

lemma parse_null: "JSON_parse ''null'' = Inr JNull"
  by code_simp

lemma parse_short: "JSON_parse ''[1,2,3]'' = Inr (JArr [JNum 1, JNum 2, JNum 3])"
  by code_simp

lemma numbers_short: "numbers (map (index (JArr [JNum 1, JNum 2, JNum 3])) [0..<16]) = None"
  by (simp add: numbers_def upt_rec)

lemma parse_long:
  "JSON_parse ''[1,0,0,0,0,1,0,0,0,0,1,0,15,30,70,1,9]'' =
     Inr (JArr (map JNum [1, 0, 0, 0, 0, 1, 0, 0, 0, 0, 1, 0, 15, 30, 70, 1, 9]))"
  by code_simp

lemma numbers_long:
  "numbers (map (index (JArr (map JNum [1, 0, 0, 0, 0, 1, 0, 0, 0, 0, 1, 0, 15, 30, 70, 1, 9])))
     [0..<16]) = Some [1, 0, 0, 0, 0, 1, 0, 0, 0, 0, 1, 0, 15, 30, 70, 1]"
  by (simp add: numbers_def upt_rec)

lemmas handler_defs = ngOnInit_def on_next_def on_error_def on_complete_def setCameraState_def
  createRenderer_def createScene_def createControls_def createLoader_def ngAfterViewInit_def
  then_do_def on_progress_def render_def animate_def frame_def on_load_def
  dispose_renderer_def dispose_controls_def dispose_dracoLoader_def dispose_pmremGenerator_def
  ngOnDestroy_def saveCurrentScene_def beforeunloadHandler_def keyEvent_def truthy_def
  default_position_def constructed_def cameraPosition_or_null_def percent_def

text \<open>
  The flag \<open>loadingState\<close> starts true and only the \<^verbatim>\<open>complete\<close> callback of the lookup
  clears it.
\<close>

lemma loadingState_setCameraState: "loadingState (fst (setCameraState s)) = loadingState s"
  by (simp add: setCameraState_def split: sum.splits option.splits)

lemma loadingState_on_complete: "loadingState (fst (on_complete s)) = False"
  by (simp add: on_complete_def Let_def loadingState_setCameraState)

lemma loadingState_createScene: "loadingState (fst (createScene s)) = loadingState s"
  by (simp add: createScene_def Let_def loadingState_setCameraState)

lemma loadingState_ngAfterViewInit: "loadingState (fst (ngAfterViewInit u s)) = loadingState s"
proof -
  have "loadingState (fst (createScene (createRenderer s))) = loadingState s"
    by (simp add: loadingState_createScene createRenderer_def)
  then show ?thesis
    by (simp add: ngAfterViewInit_def then_do_def createControls_def createLoader_def
        split: option.splits)
qed

lemma loadingState_render: "loadingState (fst (render u s)) = loadingState s"
  by (simp add: render_def Let_def)

lemma loadingState_frame: "loadingState (fst (frame u s)) = loadingState s"
  by (simp add: frame_def loadingState_render)

lemma loadingState_on_load: "loadingState (fst (on_load n u s)) = loadingState s"
proof -
  have "loadingState (fst (then_do (animate u s1) (\<lambda>s2. (s2\<lparr>loadingProgress := None\<rparr>, None)))) =
      loadingState s1" for s1
    using loadingState_render [of u s1]
    by (simp add: then_do_def animate_def split: option.splits)
  then show ?thesis
    by (simp add: on_load_def Let_def split: option.splits)
qed

lemma loadingState_saveCurrentScene: "loadingState (fst (saveCurrentScene s)) = loadingState s"
  by (simp add: saveCurrentScene_def split: cam_slot.splits)

lemma loadingState_ngOnDestroy: "loadingState (fst (ngOnDestroy s)) = loadingState s"
  by (simp add: ngOnDestroy_def then_do_def dispose_renderer_def dispose_controls_def
      dispose_dracoLoader_def dispose_pmremGenerator_def loadingState_saveCurrentScene
      split: option.splits)

lemma loadingState_step: "loadingState (fst (step K e s)) = (loadingState s \<and> \<not> completes e)"
proof (cases e)
  case (LookupDone r)
  then show ?thesis by (cases r) (simp_all add: loadingState_on_complete on_error_def)
qed (simp_all add: ngOnInit_def loadingState_ngAfterViewInit on_progress_def Let_def
    loadingState_on_load loadingState_frame keyEvent_def beforeunloadHandler_def
    loadingState_saveCurrentScene loadingState_ngOnDestroy)

lemma loadingState_run:
  "loadingState (run K evs s) = (loadingState s \<and> \<not> list_ex completes evs)"
  by (induction evs arbitrary: s) (auto simp: loadingState_step)


section \<open>Disposal\<close>

lemma saveCurrentScene_count:
  "camera s \<noteq> NoCamera \<Longrightarrow>
     snd (saveCurrentScene s) = None
     \<and> length (writes (fst (saveCurrentScene s))) = length (writes s) + 1"
  by (simp add: saveCurrentScene_def split: cam_slot.splits)

text \<open>What \<^verbatim>\<open>ngOnDestroy\<close> leaves in the fields that the frame callback reads.\<close>

lemma ngOnDestroy_keeps:
  "raf_pending (fst (ngOnDestroy s)) = raf_pending s"
  "rendered (fst (ngOnDestroy s)) = rendered s"
  "mixer (fst (ngOnDestroy s)) = mixer s"
  "scene (fst (ngOnDestroy s)) = scene s"
  "camera (fst (ngOnDestroy s)) = camera s"
  "(controls (fst (ngOnDestroy s)) = Unset) = (controls s = Unset)"
  "(renderer (fst (ngOnDestroy s)) = Unset) = (renderer s = Unset)"
  by (simp_all add: ngOnDestroy_def then_do_def saveCurrentScene_def dispose_renderer_def
      dispose_controls_def dispose_dracoLoader_def dispose_pmremGenerator_def
      split: cam_slot.splits)

lemma ngOnDestroy_writes: "writes (fst (ngOnDestroy s)) = writes (fst (saveCurrentScene s))"
  by (simp add: ngOnDestroy_def then_do_def saveCurrentScene_def dispose_renderer_def
      dispose_controls_def dispose_dracoLoader_def dispose_pmremGenerator_def
      split: cam_slot.splits)

text \<open>A frame that is rendered leaves the camera matrix composed from the other fields.\<close>

lemma render_composes_matrix:
  assumes "snd (render u s) = None" and "camera (fst (render u s)) = Camera c"
  shows "\<exists>q. quaternion c = Some q \<and> matrix c = compose (position c) q (scale c)"
proof (cases "camera s")
  case (Camera c0)
  then show ?thesis
    using assms
    by (cases "quaternion (u c0)")
      (auto simp: render_def Let_def split: if_splits)
qed (use assms in \<open>auto simp: render_def Let_def split: if_splits\<close>)

text \<open>
  C1, as the code has it.  Once the camera is constructed, each disposal, by
  \<^verbatim>\<open>ngOnDestroy\<close> or by the \<^verbatim>\<open>beforeunload\<close> handler, issues exactly one persistence
  write.  When the camera matrix is the one composed of the position, the quaternion and
  the scale of the camera, as it is after every rendered frame, the payload is the
  serialization of this transform at the moment of disposal.  Disposal does not cancel
  the frame loop: the number of scheduled frame callbacks is the same after
  \<^verbatim>\<open>ngOnDestroy\<close>, and in a view that was running a scheduled callback renders once more
  after it and schedules the next one.
\<close>

theorem disposal_writes_once:
  assumes "camera s \<noteq> NoCamera"
  shows "length (writes (fst (ngOnDestroy s))) = length (writes s) + 1
       \<and> length (writes (fst (beforeunloadHandler s))) = length (writes s) + 1
       \<and> (camera s = Camera c \<and> quaternion c = Some q
            \<and> matrix c = compose (position c) q (scale c) \<longrightarrow>
            writes (fst (ngOnDestroy s)) =
              writes s @ [Stringify (compose (position c) q (scale c))]
            \<and> writes (fst (beforeunloadHandler s)) =
              writes s @ [Stringify (compose (position c) q (scale c))])
       \<and> raf_pending (fst (ngOnDestroy s)) = raf_pending s
       \<and> (0 < raf_pending s \<and> mixer s \<and> controls s \<noteq> Unset \<and> renderer s \<noteq> Unset
            \<and> scene s \<noteq> None \<longrightarrow>
            snd (frame u (fst (ngOnDestroy s))) = None
            \<and> rendered (fst (frame u (fst (ngOnDestroy s)))) = rendered s + 1
            \<and> raf_pending (fst (frame u (fst (ngOnDestroy s)))) = raf_pending s)"
proof -
  have count: "length (writes (fst (ngOnDestroy s))) = length (writes s) + 1"
    "length (writes (fst (beforeunloadHandler s))) = length (writes s) + 1"
    using saveCurrentScene_count [OF assms]
    by (simp_all add: ngOnDestroy_writes beforeunloadHandler_def)
  have payload: "writes (fst (ngOnDestroy s)) =
        writes s @ [Stringify (compose (position c) q (scale c))]
      \<and> writes (fst (beforeunloadHandler s)) =
        writes s @ [Stringify (compose (position c) q (scale c))]"
    if "camera s = Camera c" and "quaternion c = Some q"
      and "matrix c = compose (position c) q (scale c)"
    using that by (simp add: ngOnDestroy_writes beforeunloadHandler_def saveCurrentScene_def)
  have loop: "snd (frame u (fst (ngOnDestroy s))) = None
      \<and> rendered (fst (frame u (fst (ngOnDestroy s)))) = rendered s + 1
      \<and> raf_pending (fst (frame u (fst (ngOnDestroy s)))) = raf_pending s"
    if "0 < raf_pending s" and "mixer s" and "controls s \<noteq> Unset" and "renderer s \<noteq> Unset"
      and "scene s \<noteq> None"
    using that assms by (simp add: frame_def render_def Let_def ngOnDestroy_keeps)
  from count payload loop show ?thesis
    by (simp add: ngOnDestroy_keeps)
qed


theorem disposal_writes_once_witness:
  "camera (run arrow_keys [NgOnInit, LookupDone (Emits None), NgAfterViewInit id,
       AssetLoaded 1 id] constructed) =
     Camera \<lparr>position = Vec3 15 30 70, quaternion = Some (Quat 0 0 0 1), scale = Vec3 1 1 1,
       matrix = compose (Vec3 15 30 70) (Quat 0 0 0 1) (Vec3 1 1 1)\<rparr>
   \<and> writes (fst (ngOnDestroy (run arrow_keys [NgOnInit, LookupDone (Emits None),
       NgAfterViewInit id, AssetLoaded 1 id] constructed))) =
     [Stringify [1, 0, 0, 0, 0, 1, 0, 0, 0, 0, 1, 0, 15, 30, 70, 1]]
   \<and> writes (fst (beforeunloadHandler (run arrow_keys [NgOnInit, LookupDone (Emits None),
       NgAfterViewInit id, AssetLoaded 1 id] constructed))) =
     [Stringify [1, 0, 0, 0, 0, 1, 0, 0, 0, 0, 1, 0, 15, 30, 70, 1]]
   \<and> raf_pending (run arrow_keys [NgOnInit, LookupDone (Emits None), NgAfterViewInit id,
       AssetLoaded 1 id] constructed) = 1
   \<and> rendered (run arrow_keys [NgOnInit, LookupDone (Emits None), NgAfterViewInit id,
       AssetLoaded 1 id] constructed) = 1
   \<and> snd (frame id (fst (ngOnDestroy (run arrow_keys [NgOnInit, LookupDone (Emits None),
       NgAfterViewInit id, AssetLoaded 1 id] constructed)))) = None
   \<and> rendered (fst (frame id (fst (ngOnDestroy (run arrow_keys [NgOnInit,
       LookupDone (Emits None), NgAfterViewInit id, AssetLoaded 1 id] constructed))))) = 2
   \<and> raf_pending (fst (frame id (fst (ngOnDestroy (run arrow_keys [NgOnInit,
       LookupDone (Emits None), NgAfterViewInit id, AssetLoaded 1 id] constructed))))) = 1"
proof -
  have running: "run arrow_keys [NgOnInit, LookupDone (Emits None), NgAfterViewInit id,
       AssetLoaded 1 id] constructed =
     \<lparr>camera = Camera \<lparr>position = Vec3 15 30 70, quaternion = Some (Quat 0 0 0 1),
        scale = Vec3 1 1 1, matrix = compose (Vec3 15 30 70) (Quat 0 0 0 1) (Vec3 1 1 1)\<rparr>,
      renderer = Live, pmremGenerator = Live, controls = Live, dracoLoader = Live,
      scene = Some 1, mixer = True, loadingProgress = None, loadingState = False,
      cameraState = None, reads = 1, writes = [], asset_requests = 1, raf_pending = 1,
      rendered = 1\<rparr>"
    by (simp add: handler_defs PerspectiveCamera_def)
  have composed: "compose (Vec3 15 30 70) (Quat 0 0 0 1) (Vec3 1 1 1) =
      [1, 0, 0, 0, 0, 1, 0, 0, 0, 0, 1, 0, 15, 30, 70, 1]"
    by (simp add: compose_def)
  show ?thesis
    using disposal_writes_once
      [of "run arrow_keys [NgOnInit, LookupDone (Emits None), NgAfterViewInit id,
             AssetLoaded 1 id] constructed"
          "\<lparr>position = Vec3 15 30 70, quaternion = Some (Quat 0 0 0 1), scale = Vec3 1 1 1,
            matrix = compose (Vec3 15 30 70) (Quat 0 0 0 1) (Vec3 1 1 1)\<rparr>"
          "Quat 0 0 0 1" id]
    unfolding running by (simp add: composed)
qed

text \<open>
  The claim's last part fails.  The view is set up, the asset loads and the first frame
  is rendered; the view is destroyed, which disposes of the renderer; the frame callback
  that was scheduled then runs, renders a second frame and schedules a third.
\<close>

theorem frames_after_disposal_counterexample:
  "rendered (run arrow_keys [NgOnInit, LookupDone (Emits None), NgAfterViewInit id,
       AssetLoaded 1 id, NgOnDestroy] constructed) = 1
   \<and> renderer (run arrow_keys [NgOnInit, LookupDone (Emits None), NgAfterViewInit id,
       AssetLoaded 1 id, NgOnDestroy] constructed) = Disposed
   \<and> rendered (run arrow_keys [NgOnInit, LookupDone (Emits None), NgAfterViewInit id,
       AssetLoaded 1 id, NgOnDestroy, Frame id] constructed) = 2
   \<and> raf_pending (run arrow_keys [NgOnInit, LookupDone (Emits None), NgAfterViewInit id,
       AssetLoaded 1 id, NgOnDestroy, Frame id] constructed) = 1"
  by (simp add: handler_defs PerspectiveCamera_def)

text \<open>
  The keyboard handler moves the position and leaves the matrix to the next frame.
  Between a key-up and that frame the matrix is not the transform of the camera, and a
  disposal in this window writes the matrix from before the key, where the source has the
  comment \<^verbatim>\<open>save current position of camera\<close>.
\<close>

lemma dispose_after_key_writes_old_matrix:
  assumes "camera s = Camera c"
  shows "writes (fst (ngOnDestroy (keyEvent K key s))) = writes s @ [Stringify (matrix c)]"
proof -
  have "\<exists>c'. camera (keyEvent K key s) = Camera c' \<and> matrix c' = matrix c"
    using assms by (simp add: keyEvent_def add_x_def add_y_def)
  then obtain c' where "camera (keyEvent K key s) = Camera c'" and "matrix c' = matrix c"
    by blast
  moreover have "writes (keyEvent K key s) = writes s"
    by (simp add: keyEvent_def)
  ultimately show ?thesis
    by (simp add: ngOnDestroy_writes saveCurrentScene_def)
qed


section \<open>Composing and decomposing a transform\<close>












section \<open>Restoring and saving\<close>

lemma overflow_bound_eq: "overflow_bound = 2 ^ 1024 - 2 ^ 970"
  by (simp add: overflow_bound_def)

lemma parse_turned:
  "JSON_parse ''[-1,0,0,0,0,1,0,0,0,0,-1,0,0,0.5,10,1]'' =
     Inr (JArr (map JNum [- 1, 0, 0, 0, 0, 1, 0, 0, 0, 0, - 1, 0, 0, 1 / 2, 10, 1]))"
  by code_simp



text \<open>
  The two orders of the lookup and the initialization of the view, for a stored text that
  parses to sixteen numbers \<open>T\<close>; \<open>u\<close> is what the controls do to the camera when they
  are created.
\<close>

lemma lookup_then_view:
  assumes "JSON_parse str = Inr (JArr (map JNum T))" and "length T = 16"
  shows "run K [NgOnInit, LookupDone (Emits (Some \<lparr>cameraPosition = Some str\<rparr>)),
            NgAfterViewInit u] constructed =
     \<lparr>camera = Camera (u (restore T)),
      renderer = Live, pmremGenerator = Live, controls = Live, dracoLoader = Live,
      scene = Some 0, mixer = False, loadingProgress = Some (Finite 1),
      loadingState = False, cameraState = Some str, reads = 1, writes = [],
      asset_requests = 1, raf_pending = 0, rendered = 0\<rparr>"
proof -
  from assms(1) have "str \<noteq> []" by auto
  then show ?thesis
    by (simp add: ngAfterViewInit_def then_do_def createScene_def createRenderer_def
        createControls_def createLoader_def on_complete_def on_next_def
        cameraPosition_or_null_def truthy_def ngOnInit_def constructed_def
        setCameraState_def Let_def assms fromArray_numbers numbers_of_numbers)
qed

lemma view_then_lookup:
  assumes "JSON_parse str = Inr (JArr (map JNum T))" and "length T = 16"
  shows "run K [NgOnInit, NgAfterViewInit u,
            LookupDone (Emits (Some \<lparr>cameraPosition = Some str\<rparr>))] constructed =
     \<lparr>camera = Camera (restore T),
      renderer = Live, pmremGenerator = Live, controls = Live, dracoLoader = Live,
      scene = Some 0, mixer = False, loadingProgress = Some (Finite 1),
      loadingState = False, cameraState = Some str, reads = 1, writes = [],
      asset_requests = 1, raf_pending = 0, rendered = 0\<rparr>"
proof -
  from assms(1) have "str \<noteq> []" by auto
  then show ?thesis
    by (simp add: ngAfterViewInit_def then_do_def createScene_def createRenderer_def
        createControls_def createLoader_def on_complete_def on_next_def
        cameraPosition_or_null_def truthy_def ngOnInit_def constructed_def default_position_def
        setCameraState_def Let_def assms fromArray_numbers numbers_of_numbers)
qed


lemma restore_turned:
  "restore [- 1, 0, 0, 0, 0, 1, 0, 0, 0, 0, - 1, 0, 0, 1 / 2, 10, 1] =
     \<lparr>position = Vec3 0 (1 / 2) 10, quaternion = Some (Quat 0 1 0 0), scale = Vec3 1 1 1,
      matrix = [- 1, 0, 0, 0, 0, 1, 0, 0, 0, 0, - 1, 0, 0, 1 / 2, 10, 1]\<rparr>"
proof -
  have "sqrt 4 = 2"
    using real_sqrt_abs2 [of 2] by simp
  then show ?thesis
    by (simp add: restore_def decompose_def determinant_def length3_def
        setFromRotationMatrix_def)
qed






section \<open>The first update of the controls\<close>

text \<open>
  Away from the poles, the way of an offset through spherical coordinates gives the
  offset back: the update of the controls leaves the position of the camera where it is.
\<close>

lemma orbit_offset_id:
  assumes "0 < x * x + z * z" and "4 * (y * y) \<le> x * x + y * y + z * z"
  shows "orbit_offset (Vec3 x y z) = Vec3 x y z"
proof -
  define r where "r = sqrt (x * x + y * y + z * z)"
  define rho where "rho = sqrt (x * x + z * z)"
  define t where "t = y / r"
  define phi where "phi = arccos t"
  have rho_pos: "0 < rho"
    unfolding rho_def using assms(1) by simp
  have "0 \<le> y * y" by simp
  with assms(1) have sq: "0 < x * x + y * y + z * z" by linarith
  then have r_pos: "0 < r"
    unfolding r_def by simp
  have r2: "r * r = x * x + y * y + z * z"
    unfolding r_def using sq by simp
  have rho2: "rho * rho = x * x + z * z"
    unfolding rho_def using assms(1) by simp
  have tt: "t * t = y * y / (r * r)"
    by (simp add: t_def)
  have "4 * (y * y) \<le> r * r"
    using assms(2) r2 by simp
  then have "4 * (y * y) / (r * r) \<le> 1"
    using r_pos by simp
  then have "(2 * t)\<^sup>2 \<le> 1"
    by (simp add: power2_eq_square tt)
  then have "\<bar>2 * t\<bar> \<le> 1"
    by (simp only: abs_square_le_1)
  then have tb: "- (1 / 2) \<le> t" "t \<le> 1 / 2"
    by simp_all
  have cl: "clamp t (- 1) 1 = t"
    using tb by (simp add: clamp_def)
  have "arccos (1 / 2) \<le> arccos t"
    using tb by (subst arccos_le_mono) simp_all
  then have lo: "pi / 3 \<le> phi"
    by (simp add: phi_def)
  have "arccos t \<le> arccos (- (1 / 2))"
    using tb by (subst arccos_le_mono) simp_all
  moreover have "arccos (- (1 / 2)) = pi - pi / 3"
    using arccos_minus [of "1 / 2"] by simp
  ultimately have hi: "phi \<le> pi - pi / 3"
    by (simp add: phi_def)
  have safe: "max EPS (min (pi - EPS) (max 0 (min pi phi))) = phi"
    using lo hi pi_ge_two by (simp add: EPS_def max_def min_def)
  have c: "cos phi = t"
    unfolding phi_def using tb by (simp add: cos_arccos)
  have "sin phi = sqrt (1 - t\<^sup>2)"
    unfolding phi_def using tb by (simp add: sin_arccos)
  then have "sin phi * r = sqrt (1 - t\<^sup>2) * sqrt (r * r)"
    using r_pos by simp
  also have "\<dots> = sqrt ((1 - t\<^sup>2) * (r * r))"
    by (simp add: real_sqrt_mult)
  also have "(1 - t\<^sup>2) * (r * r) = r * r - y * y"
    using r_pos by (simp add: power2_eq_square tt algebra_simps)
  also have "r * r - y * y = x * x + z * z"
    by (simp add: r2)
  finally have s: "sin phi * r = rho"
    by (simp add: rho_def)
  have cr: "cos phi * r = y"
    using r_pos by (simp add: c t_def)
  have "orbit_offset (Vec3 x y z) = Vec3 (sin phi * r * (x / rho)) (cos phi * r) (sin phi * r * (z / rho))"
    using r_pos rho_pos
    by (simp add: orbit_offset_def lengthSq_def Let_def r_def [symmetric] rho_def [symmetric]
        t_def [symmetric] cl phi_def [symmetric] safe)
  then show ?thesis
    using rho_pos by (simp add: s cr)
qed

lemma position_lookAt: "position (lookAt target c) = position c"
  by (simp add: lookAt_def split: option.splits)

lemma scale_lookAt: "scale (lookAt target c) = scale c"
  by (simp add: lookAt_def split: option.splits)

lemma quaternion_lookAt:
  "quaternion c \<noteq> None \<Longrightarrow>
     quaternion (lookAt target c) =
       Some (setFromRotationMatrix (lookAt_rotation (position c) target (Vec3 0 1 0)))"
  by (auto simp: lookAt_def)

text \<open>
  From (0, 0.5, 10) the controls turn the camera towards their target (0, 0.5, 0),
  down the negative z axis.
\<close>

lemma orbit_update_turned:
  assumes "position c = Vec3 0 (1 / 2) 10" and "quaternion c \<noteq> None"
  shows "position (orbit_update (Vec3 0 (1 / 2) 0) c) = Vec3 0 (1 / 2) 10"
    and "quaternion (orbit_update (Vec3 0 (1 / 2) 0) c) = Some (Quat 0 0 0 1)"
    and "scale (orbit_update (Vec3 0 (1 / 2) 0) c) = scale c"
proof -
  have offset: "orbit_offset (Vec3 0 0 10) = Vec3 0 0 10"
    by (rule orbit_offset_id) simp_all
  show "position (orbit_update (Vec3 0 (1 / 2) 0) c) = Vec3 0 (1 / 2) 10"
    by (simp add: orbit_update_def position_lookAt assms sub3_def add3_def offset)
  have four: "sqrt 4 = 2"
    using real_sqrt_abs2 [of 2] by simp
  have hundred: "sqrt 100 = 10"
    using real_sqrt_abs2 [of 10] by simp
  have rot: "lookAt_rotation (Vec3 0 (1 / 2) 10) (Vec3 0 (1 / 2) 0) (Vec3 0 1 0) =
      [1, 0, 0, 0, 0, 1, 0, 0, 0, 0, 1, 0, 0, 0, 0, 1]"
    by (simp add: lookAt_rotation_def sub3_def lengthSq_def normalize_def cross_def Let_def
        hundred)
  have "quaternion (orbit_update (Vec3 0 (1 / 2) 0) c) =
      Some (setFromRotationMatrix (lookAt_rotation (Vec3 0 (1 / 2) 10) (Vec3 0 (1 / 2) 0)
        (Vec3 0 1 0)))"
    using assms(2)
    by (simp add: orbit_update_def quaternion_lookAt assms(1) sub3_def add3_def offset)
  then show "quaternion (orbit_update (Vec3 0 (1 / 2) 0) c) = Some (Quat 0 0 0 1)"
    by (simp add: rot setFromRotationMatrix_def four)
  show "scale (orbit_update (Vec3 0 (1 / 2) 0) c) = scale c"
    by (simp add: orbit_update_def scale_lookAt)
qed

lemma controls_created_turned:
  assumes "position c = Vec3 0 (1 / 2) 10" and "quaternion c \<noteq> None"
  shows "position (controls_created c) = Vec3 0 (1 / 2) 10"
    and "quaternion (controls_created c) = Some (Quat 0 0 0 1)"
    and "scale (controls_created c) = scale c"
proof -
  have offset: "orbit_offset (Vec3 0 (1 / 2) 10) = Vec3 0 (1 / 2) 10"
    by (rule orbit_offset_id) simp_all
  define c1 where "c1 = orbit_update (Vec3 0 0 0) c"
  have p1: "position c1 = Vec3 0 (1 / 2) 10"
    by (simp add: c1_def orbit_update_def position_lookAt assms sub3_def add3_def offset)
  have q1: "quaternion c1 \<noteq> None"
    using assms(2) by (simp add: c1_def orbit_update_def quaternion_lookAt)
  have s1: "scale c1 = scale c"
    by (simp add: c1_def orbit_update_def scale_lookAt)
  have cc: "controls_created c = orbit_update (Vec3 0 (1 / 2) 0) c1"
    by (simp add: controls_created_def c1_def)
  show "position (controls_created c) = Vec3 0 (1 / 2) 10"
    and "quaternion (controls_created c) = Some (Quat 0 0 0 1)"
    and "scale (controls_created c) = scale c"
    by (simp_all add: cc orbit_update_turned [OF p1 q1] s1)
qed


section \<open>The two orders of lookup and view\<close>

lemma lookup_then_view_absent:
  assumes "cameraPosition_or_null state = None"
  shows "run K [NgOnInit, LookupDone (Emits state), NgAfterViewInit u] constructed =
     \<lparr>camera = Camera (u (default_position PerspectiveCamera)),
      renderer = Live, pmremGenerator = Live, controls = Live, dracoLoader = Live,
      scene = Some 0, mixer = False, loadingProgress = Some (Finite 1),
      loadingState = False, cameraState = None, reads = 1, writes = [],
      asset_requests = 1, raf_pending = 0, rendered = 0\<rparr>"
  using assms
  by (simp add: ngAfterViewInit_def then_do_def createScene_def createRenderer_def
      createControls_def createLoader_def on_complete_def on_next_def truthy_def ngOnInit_def
      constructed_def setCameraState_def Let_def)

lemma view_then_lookup_absent:
  assumes "cameraPosition_or_null state = None"
  shows "run K [NgOnInit, NgAfterViewInit u, LookupDone (Emits state)] constructed =
     \<lparr>camera = Camera (default_position (u (default_position PerspectiveCamera))),
      renderer = Live, pmremGenerator = Live, controls = Live, dracoLoader = Live,
      scene = Some 0, mixer = False, loadingProgress = Some (Finite 1),
      loadingState = False, cameraState = None, reads = 1, writes = [],
      asset_requests = 1, raf_pending = 0, rendered = 0\<rparr>"
  using assms
  by (simp add: ngAfterViewInit_def then_do_def createScene_def createRenderer_def
      createControls_def createLoader_def on_complete_def on_next_def truthy_def ngOnInit_def
      constructed_def setCameraState_def Let_def)

lemma default_position_fixed:
  "(c = default_position c) = (position c = Vec3 15 30 70)"
  by (cases c) (auto simp: default_position_def)

text \<open>
  C3, as the code has it.  In both orders the stored value is applied to the camera:
  when the lookup completes before the view is initialized, \<^verbatim>\<open>createScene\<close> constructs
  the camera and restores it, and \<^verbatim>\<open>createControls\<close> then creates the controls, whose
  first update \<open>u\<close> acts on the restored camera; when the view is initialized first, the
  \<^verbatim>\<open>complete\<close> callback restores the camera that exists, after the controls were
  created.  For a stored text that parses to sixteen numbers \<open>T\<close> the camera ends as
  \<open>u (restore T)\<close> in the first order and as \<open>restore T\<close>, with \<open>T\<close> as its matrix, in the
  second; the component ends in the same state exactly when the first update of the
  controls leaves the restored camera as it is.  When the lookup emits no stored value,
  the camera is put at the default position, before the controls are created in the
  first order, before and after in the second; the component ends in the same state
  exactly when the controls leave the camera at the default position.
\<close>

theorem restore_in_either_order:
  "(JSON_parse str = Inr (JArr (map JNum T)) \<and> length T = 16 \<longrightarrow>
      camera (run K [NgOnInit, LookupDone (Emits (Some \<lparr>cameraPosition = Some str\<rparr>)),
         NgAfterViewInit u] constructed) = Camera (u (restore T))
      \<and> camera (run K [NgOnInit, NgAfterViewInit u,
           LookupDone (Emits (Some \<lparr>cameraPosition = Some str\<rparr>))] constructed) =
        Camera (restore T)
      \<and> matrix (restore T) = T
      \<and> position (restore T) = Vec3 (T ! 12) (T ! 13) (T ! 14)
      \<and> ((run K [NgOnInit, LookupDone (Emits (Some \<lparr>cameraPosition = Some str\<rparr>)),
             NgAfterViewInit u] constructed =
           run K [NgOnInit, NgAfterViewInit u,
             LookupDone (Emits (Some \<lparr>cameraPosition = Some str\<rparr>))] constructed)
          = (u (restore T) = restore T)))
   \<and> (cameraPosition_or_null state = None \<longrightarrow>
      camera (run K [NgOnInit, LookupDone (Emits state), NgAfterViewInit u] constructed) =
        Camera (u (default_position PerspectiveCamera))
      \<and> camera (run K [NgOnInit, NgAfterViewInit u, LookupDone (Emits state)] constructed) =
        Camera (default_position (u (default_position PerspectiveCamera)))
      \<and> ((run K [NgOnInit, LookupDone (Emits state), NgAfterViewInit u] constructed =
           run K [NgOnInit, NgAfterViewInit u, LookupDone (Emits state)] constructed)
          = (position (u (default_position PerspectiveCamera)) = Vec3 15 30 70)))"
proof -
  have stored: "camera (run K [NgOnInit, LookupDone (Emits (Some \<lparr>cameraPosition = Some str\<rparr>)),
         NgAfterViewInit u] constructed) = Camera (u (restore T))
      \<and> camera (run K [NgOnInit, NgAfterViewInit u,
           LookupDone (Emits (Some \<lparr>cameraPosition = Some str\<rparr>))] constructed) =
        Camera (restore T)
      \<and> ((run K [NgOnInit, LookupDone (Emits (Some \<lparr>cameraPosition = Some str\<rparr>)),
             NgAfterViewInit u] constructed =
           run K [NgOnInit, NgAfterViewInit u,
             LookupDone (Emits (Some \<lparr>cameraPosition = Some str\<rparr>))] constructed)
          = (u (restore T) = restore T))"
    if "JSON_parse str = Inr (JArr (map JNum T))" and "length T = 16"
    unfolding lookup_then_view [OF that] view_then_lookup [OF that] by simp
  have absent: "camera (run K [NgOnInit, LookupDone (Emits state), NgAfterViewInit u] constructed) =
        Camera (u (default_position PerspectiveCamera))
      \<and> camera (run K [NgOnInit, NgAfterViewInit u, LookupDone (Emits state)] constructed) =
        Camera (default_position (u (default_position PerspectiveCamera)))
      \<and> ((run K [NgOnInit, LookupDone (Emits state), NgAfterViewInit u] constructed =
           run K [NgOnInit, NgAfterViewInit u, LookupDone (Emits state)] constructed)
          = (position (u (default_position PerspectiveCamera)) = Vec3 15 30 70))"
    if "cameraPosition_or_null state = None"
    unfolding lookup_then_view_absent [OF that] view_then_lookup_absent [OF that]
    by (simp add: default_position_fixed)
  from stored absent show ?thesis
    by (simp add: matrix_restore position_restore)
qed

theorem restore_in_either_order_witness:
  "JSON_parse ''[-1,0,0,0,0,1,0,0,0,0,-1,0,0,0.5,10,1]'' =
     Inr (JArr (map JNum [- 1, 0, 0, 0, 0, 1, 0, 0, 0, 0, - 1, 0, 0, 1 / 2, 10, 1]))
   \<and> length [- 1, 0, 0, 0, 0, 1, 0, 0, 0, 0, - 1, 0, 0, 1 / 2, 10 :: real, 1] = 16
   \<and> camera (run arrow_keys [NgOnInit, LookupDone (Emits (Some
        \<lparr>cameraPosition = Some ''[-1,0,0,0,0,1,0,0,0,0,-1,0,0,0.5,10,1]''\<rparr>)),
        NgAfterViewInit controls_created] constructed) =
       Camera (controls_created
         \<lparr>position = Vec3 0 (1 / 2) 10, quaternion = Some (Quat 0 1 0 0), scale = Vec3 1 1 1,
          matrix = [- 1, 0, 0, 0, 0, 1, 0, 0, 0, 0, - 1, 0, 0, 1 / 2, 10, 1]\<rparr>)
   \<and> camera (run arrow_keys [NgOnInit, NgAfterViewInit controls_created,
        LookupDone (Emits (Some
          \<lparr>cameraPosition = Some ''[-1,0,0,0,0,1,0,0,0,0,-1,0,0,0.5,10,1]''\<rparr>))]
        constructed) =
       Camera \<lparr>position = Vec3 0 (1 / 2) 10, quaternion = Some (Quat 0 1 0 0),
         scale = Vec3 1 1 1,
         matrix = [- 1, 0, 0, 0, 0, 1, 0, 0, 0, 0, - 1, 0, 0, 1 / 2, 10, 1]\<rparr>
   \<and> cameraPosition_or_null None = None
   \<and> camera (run arrow_keys [NgOnInit, LookupDone (Emits None), NgAfterViewInit (add_x 5)]
        constructed) =
       Camera (PerspectiveCamera\<lparr>position := Vec3 20 30 70\<rparr>)
   \<and> camera (run arrow_keys [NgOnInit, NgAfterViewInit (add_x 5), LookupDone (Emits None)]
        constructed) =
       Camera (PerspectiveCamera\<lparr>position := Vec3 15 30 70\<rparr>)"
proof -
  have len: "length [- 1, 0, 0, 0, 0, 1, 0, 0, 0, 0, - 1, 0, 0, 1 / 2, 10 :: real, 1] = 16"
    by simp
  have none: "cameraPosition_or_null None = None"
    by (simp add: cameraPosition_or_null_def)
  from parse_turned len none show ?thesis
    using restore_in_either_order [of "''[-1,0,0,0,0,1,0,0,0,0,-1,0,0,0.5,10,1]''"
        "[- 1, 0, 0, 0, 0, 1, 0, 0, 0, 0, - 1, 0, 0, 1 / 2, 10, 1]" arrow_keys
        controls_created None]
      restore_in_either_order [of "''[-1,0,0,0,0,1,0,0,0,0,-1,0,0,0.5,10,1]''"
        "[- 1, 0, 0, 0, 0, 1, 0, 0, 0, 0, - 1, 0, 0, 1 / 2, 10, 1]" arrow_keys
        "add_x 5" None]
    by (simp add: restore_turned add_x_def default_position_def PerspectiveCamera_def)
qed

text \<open>
  The last sentence of the claim fails.  The stored camera is at (0, 0.5, 10) and turned
  half a turn about the y axis, away from the target of the controls.  When the lookup
  completes first, the controls of the library are created on the restored camera and
  turn it towards their target: the stored orientation is lost.  When the view is
  initialized first, the restore comes last and the camera has the stored orientation.
\<close>

theorem restore_in_either_order_counterexample:
  "orientation (camera (run arrow_keys [NgOnInit, LookupDone (Emits (Some
        \<lparr>cameraPosition = Some ''[-1,0,0,0,0,1,0,0,0,0,-1,0,0,0.5,10,1]''\<rparr>)),
        NgAfterViewInit controls_created] constructed)) = Some (Quat 0 0 0 1)
   \<and> orientation (camera (run arrow_keys [NgOnInit, NgAfterViewInit controls_created,
        LookupDone (Emits (Some
          \<lparr>cameraPosition = Some ''[-1,0,0,0,0,1,0,0,0,0,-1,0,0,0.5,10,1]''\<rparr>))]
        constructed)) = Some (Quat 0 1 0 0)"
proof -
  have len: "length [- 1, 0, 0, 0, 0, 1, 0, 0, 0, 0, - 1, 0, 0, 1 / 2, 10 :: real, 1] = 16"
    by simp
  have "quaternion (controls_created
      (restore [- 1, 0, 0, 0, 0, 1, 0, 0, 0, 0, - 1, 0, 0, 1 / 2, 10, 1])) =
      Some (Quat 0 0 0 1)"
    by (rule controls_created_turned) (simp_all add: restore_turned)
  then show ?thesis
    unfolding lookup_then_view [OF parse_turned len] view_then_lookup [OF parse_turned len]
    by (simp add: restore_turned)
qed

text \<open>
  The difference does not outlast the first frame.  Each frame updates the controls,
  which turn the camera towards their target again, and the renderer composes the matrix
  anew: once the asset has loaded and the first frame is rendered, the component is in
  the same state in both orders, with the camera turned towards the target and not as it
  was stored.
\<close>

lemma run_snoc: "run K (es @ [e]) s = fst (step K e (run K es s))"
  by (induction es arbitrary: s) simp_all

lemma first_frame_turned:
  assumes "position c = Vec3 0 (1 / 2) 10" and "quaternion c \<noteq> None"
    and "scale c = Vec3 1 1 1"
  shows "updateMatrixWorld (Camera (orbit_update (Vec3 0 (1 / 2) 0) c)) =
     Camera \<lparr>position = Vec3 0 (1 / 2) 10, quaternion = Some (Quat 0 0 0 1),
       scale = Vec3 1 1 1, matrix = [1, 0, 0, 0, 0, 1, 0, 0, 0, 0, 1, 0, 0, 1 / 2, 10, 1]\<rparr>"
  using orbit_update_turned [OF assms(1,2)] assms(3)
  by (cases "orbit_update (Vec3 0 (1 / 2) 0) c") (simp add: compose_def)

lemma orders_agree_after_first_frame:
  "run arrow_keys [NgOnInit, LookupDone (Emits (Some
        \<lparr>cameraPosition = Some ''[-1,0,0,0,0,1,0,0,0,0,-1,0,0,0.5,10,1]''\<rparr>)),
        NgAfterViewInit controls_created, AssetLoaded 1 (orbit_update (Vec3 0 (1 / 2) 0))]
     constructed =
   run arrow_keys [NgOnInit, NgAfterViewInit controls_created,
        LookupDone (Emits (Some
          \<lparr>cameraPosition = Some ''[-1,0,0,0,0,1,0,0,0,0,-1,0,0,0.5,10,1]''\<rparr>)),
        AssetLoaded 1 (orbit_update (Vec3 0 (1 / 2) 0))] constructed"
proof -
  have len: "length [- 1, 0, 0, 0, 0, 1, 0, 0, 0, 0, - 1, 0, 0, 1 / 2, 10 :: real, 1] = 16"
    by simp
  have restored: "updateMatrixWorld (Camera (orbit_update (Vec3 0 (1 / 2) 0)
      (restore [- 1, 0, 0, 0, 0, 1, 0, 0, 0, 0, - 1, 0, 0, 1 / 2, 10, 1]))) =
     Camera \<lparr>position = Vec3 0 (1 / 2) 10, quaternion = Some (Quat 0 0 0 1),
       scale = Vec3 1 1 1, matrix = [1, 0, 0, 0, 0, 1, 0, 0, 0, 0, 1, 0, 0, 1 / 2, 10, 1]\<rparr>"
    by (rule first_frame_turned) (simp_all add: restore_turned)
  have turned: "updateMatrixWorld (Camera (orbit_update (Vec3 0 (1 / 2) 0)
      (controls_created (restore [- 1, 0, 0, 0, 0, 1, 0, 0, 0, 0, - 1, 0, 0, 1 / 2, 10, 1])))) =
     Camera \<lparr>position = Vec3 0 (1 / 2) 10, quaternion = Some (Quat 0 0 0 1),
       scale = Vec3 1 1 1, matrix = [1, 0, 0, 0, 0, 1, 0, 0, 0, 0, 1, 0, 0, 1 / 2, 10, 1]\<rparr>"
    by (rule first_frame_turned) (simp_all add: controls_created_turned restore_turned)
  have first: "run arrow_keys [NgOnInit, LookupDone (Emits (Some
        \<lparr>cameraPosition = Some ''[-1,0,0,0,0,1,0,0,0,0,-1,0,0,0.5,10,1]''\<rparr>)),
        NgAfterViewInit controls_created, AssetLoaded 1 (orbit_update (Vec3 0 (1 / 2) 0))]
     constructed =
     fst (on_load 1 (orbit_update (Vec3 0 (1 / 2) 0))
       (run arrow_keys [NgOnInit, LookupDone (Emits (Some
        \<lparr>cameraPosition = Some ''[-1,0,0,0,0,1,0,0,0,0,-1,0,0,0.5,10,1]''\<rparr>)),
        NgAfterViewInit controls_created] constructed))"
    using run_snoc [of arrow_keys "[NgOnInit, LookupDone (Emits (Some
        \<lparr>cameraPosition = Some ''[-1,0,0,0,0,1,0,0,0,0,-1,0,0,0.5,10,1]''\<rparr>)),
        NgAfterViewInit controls_created]" "AssetLoaded 1 (orbit_update (Vec3 0 (1 / 2) 0))"
        constructed]
    by simp
  have second: "run arrow_keys [NgOnInit, NgAfterViewInit controls_created,
        LookupDone (Emits (Some
          \<lparr>cameraPosition = Some ''[-1,0,0,0,0,1,0,0,0,0,-1,0,0,0.5,10,1]''\<rparr>)),
        AssetLoaded 1 (orbit_update (Vec3 0 (1 / 2) 0))] constructed =
     fst (on_load 1 (orbit_update (Vec3 0 (1 / 2) 0))
       (run arrow_keys [NgOnInit, NgAfterViewInit controls_created,
        LookupDone (Emits (Some
          \<lparr>cameraPosition = Some ''[-1,0,0,0,0,1,0,0,0,0,-1,0,0,0.5,10,1]''\<rparr>))]
        constructed))"
    using run_snoc [of arrow_keys "[NgOnInit, NgAfterViewInit controls_created,
        LookupDone (Emits (Some
          \<lparr>cameraPosition = Some ''[-1,0,0,0,0,1,0,0,0,0,-1,0,0,0.5,10,1]''\<rparr>))]"
        "AssetLoaded 1 (orbit_update (Vec3 0 (1 / 2) 0))" constructed]
    by simp
  show ?thesis
    unfolding first second
      lookup_then_view [OF parse_turned len] view_then_lookup [OF parse_turned len]
    by (simp add: on_load_def animate_def render_def then_do_def Let_def restored turned
        del: updateMatrixWorld.simps)
qed


section \<open>Missing and malformed stored state\<close>

text \<open>
  C6.  The component stores no camera state exactly when the lookup gave no state, or a
  state whose position is \<^verbatim>\<open>null\<close> or the empty string.  With no stored state,
  \<^verbatim>\<open>createScene\<close>, run after \<^verbatim>\<open>createRenderer\<close>, constructs the camera at the
  position (15, 30, 70), and
  \<^verbatim>\<open>setCameraState\<close> and the \<^verbatim>\<open>complete\<close> callback move an existing camera there,
  leaving its other fields.  Whenever \<^verbatim>\<open>setCameraState\<close> does anything else to a camera,
  a stored string exists and is not empty.
\<close>

theorem no_prior_state_default_position:
  "(cameraState (on_next state s) = None \<longleftrightarrow>
      state = None \<or> cameraPosition (the state) = None \<or> cameraPosition (the state) = Some [])
   \<and> (\<not> truthy (cameraState s) \<and> pmremGenerator s \<noteq> Unset \<longrightarrow>
        createScene s =
          (s\<lparr>scene := Some 0,
             camera := Camera (PerspectiveCamera\<lparr>position := Vec3 15 30 70\<rparr>)\<rparr>, None))
   \<and> (\<not> truthy (cameraState s) \<and> camera s = Camera c \<longrightarrow>
        setCameraState s = (s\<lparr>camera := Camera (c\<lparr>position := Vec3 15 30 70\<rparr>)\<rparr>, None)
        \<and> on_complete s =
            (s\<lparr>loadingState := False, camera := Camera (c\<lparr>position := Vec3 15 30 70\<rparr>)\<rparr>,
             None))
   \<and> (camera s = Camera c
        \<and> setCameraState s \<noteq> (s\<lparr>camera := Camera (c\<lparr>position := Vec3 15 30 70\<rparr>)\<rparr>, None) \<longrightarrow>
        cameraState s \<noteq> None \<and> cameraState s \<noteq> Some [])"
  by (auto simp: on_next_def cameraPosition_or_null_def truthy_def createScene_def
      setCameraState_def on_complete_def default_position_def Let_def split: option.splits)

theorem no_prior_state_default_position_witness:
  "cameraState (on_next None (constructed\<lparr>cameraState := Some ''abc''\<rparr>)) = None
   \<and> cameraState (on_next (Some \<lparr>cameraPosition = None\<rparr>) constructed) = None
   \<and> \<not> truthy (cameraState (createRenderer constructed))
   \<and> pmremGenerator (createRenderer constructed) \<noteq> Unset
   \<and> createScene (createRenderer constructed) =
       (constructed\<lparr>renderer := Live, pmremGenerator := Live, scene := Some 0,
          camera := Camera (PerspectiveCamera\<lparr>position := Vec3 15 30 70\<rparr>)\<rparr>, None)
   \<and> camera (constructed\<lparr>camera := Camera PerspectiveCamera\<rparr>) = Camera PerspectiveCamera
   \<and> on_complete (constructed\<lparr>camera := Camera PerspectiveCamera\<rparr>) =
       (constructed\<lparr>loadingState := False,
          camera := Camera (PerspectiveCamera\<lparr>position := Vec3 15 30 70\<rparr>)\<rparr>, None)
   \<and> setCameraState (constructed\<lparr>camera := Camera PerspectiveCamera, cameraState := Some ''abc''\<rparr>) \<noteq>
       (constructed\<lparr>camera := Camera (PerspectiveCamera\<lparr>position := Vec3 15 30 70\<rparr>),
          cameraState := Some ''abc''\<rparr>, None)
   \<and> cameraState (constructed\<lparr>camera := Camera PerspectiveCamera, cameraState := Some ''abc''\<rparr>) =
       Some ''abc''"
  using no_prior_state_default_position [of None "constructed\<lparr>cameraState := Some ''abc''\<rparr>"]
    no_prior_state_default_position [of "Some \<lparr>cameraPosition = None\<rparr>" constructed]
    no_prior_state_default_position [of None "createRenderer constructed" PerspectiveCamera]
    no_prior_state_default_position
      [of None "constructed\<lparr>camera := Camera PerspectiveCamera\<rparr>" PerspectiveCamera]
    no_prior_state_default_position
      [of None "constructed\<lparr>camera := Camera PerspectiveCamera, cameraState := Some ''abc''\<rparr>"
          PerspectiveCamera]
  by (simp add: constructed_def truthy_def setCameraState_def parse_abc createRenderer_def)

text \<open>
  C8, as the code has it.  Only the empty string falls back to the default position.  A
  stored string that is not empty and is not a JSON text makes the restore operation raise
  \<^verbatim>\<open>SyntaxError\<close>, and the text \<^verbatim>\<open>null\<close> makes it raise \<^verbatim>\<open>TypeError\<close>; the camera
  is then left as it was.  Of any other value the first sixteen elements are copied into
  the camera matrix as they are, and nothing is raised: when they are all numbers, as for
  an array of seventeen numbers, the camera is restored from them, and otherwise its fields
  hold values that are not numbers.  In neither case is it moved to the default position.
\<close>

theorem malformed_state_outcomes:
  assumes "camera s = Camera c" and "cameraState s = Some str"
  shows "(str = [] \<longrightarrow>
            setCameraState s = (s\<lparr>camera := Camera (c\<lparr>position := Vec3 15 30 70\<rparr>)\<rparr>, None))
       \<and> (str \<noteq> [] \<and> JSON_parse str = Inl SyntaxError \<longrightarrow>
            setCameraState s = (s, Some SyntaxError))
       \<and> (JSON_parse str = Inr JNull \<longrightarrow> setCameraState s = (s, Some TypeError))
       \<and> (JSON_parse str = Inr a \<and> a \<noteq> JNull \<and> numbers (map (index a) [0..<16]) = None \<longrightarrow>
            setCameraState s = (s\<lparr>camera := Untracked\<rparr>, None))
       \<and> (JSON_parse str = Inr a \<and> a \<noteq> JNull \<and> numbers (map (index a) [0..<16]) = Some te \<longrightarrow>
            setCameraState s = (s\<lparr>camera := Camera (restore te)\<rparr>, None))"
  using assms
  by (auto simp: setCameraState_def truthy_def default_position_def fromArray_def)

theorem malformed_state_outcomes_witness:
  "setCameraState (constructed\<lparr>camera := Camera PerspectiveCamera, cameraState := Some []\<rparr>) =
     (constructed\<lparr>camera := Camera (PerspectiveCamera\<lparr>position := Vec3 15 30 70\<rparr>),
        cameraState := Some []\<rparr>, None)
   \<and> JSON_parse ''abc'' = Inl SyntaxError
   \<and> setCameraState (constructed\<lparr>camera := Camera PerspectiveCamera, cameraState := Some ''abc''\<rparr>) =
       (constructed\<lparr>camera := Camera PerspectiveCamera, cameraState := Some ''abc''\<rparr>,
        Some SyntaxError)
   \<and> JSON_parse ''null'' = Inr JNull
   \<and> setCameraState (constructed\<lparr>camera := Camera PerspectiveCamera, cameraState := Some ''null''\<rparr>) =
       (constructed\<lparr>camera := Camera PerspectiveCamera, cameraState := Some ''null''\<rparr>,
        Some TypeError)
   \<and> JSON_parse ''[1,2,3]'' = Inr (JArr [JNum 1, JNum 2, JNum 3])
   \<and> numbers (map (index (JArr [JNum 1, JNum 2, JNum 3])) [0..<16]) = None
   \<and> setCameraState (constructed\<lparr>camera := Camera PerspectiveCamera, cameraState := Some ''[1,2,3]''\<rparr>) =
       (constructed\<lparr>camera := Untracked, cameraState := Some ''[1,2,3]''\<rparr>, None)
   \<and> JSON_parse ''[1,0,0,0,0,1,0,0,0,0,1,0,15,30,70,1,9]'' =
       Inr (JArr (map JNum [1, 0, 0, 0, 0, 1, 0, 0, 0, 0, 1, 0, 15, 30, 70, 1, 9]))
   \<and> numbers (map (index (JArr (map JNum [1, 0, 0, 0, 0, 1, 0, 0, 0, 0, 1, 0, 15, 30, 70, 1, 9])))
        [0..<16]) = Some [1, 0, 0, 0, 0, 1, 0, 0, 0, 0, 1, 0, 15, 30, 70, 1]
   \<and> setCameraState (constructed\<lparr>camera := Camera PerspectiveCamera,
        cameraState := Some ''[1,0,0,0,0,1,0,0,0,0,1,0,15,30,70,1,9]''\<rparr>) =
       (constructed\<lparr>camera := Camera (restore [1, 0, 0, 0, 0, 1, 0, 0, 0, 0, 1, 0, 15, 30, 70, 1]),
          cameraState := Some ''[1,0,0,0,0,1,0,0,0,0,1,0,15,30,70,1,9]''\<rparr>, None)"
  using parse_abc parse_null parse_short numbers_short parse_long numbers_long
    malformed_state_outcomes
      [of "constructed\<lparr>camera := Camera PerspectiveCamera, cameraState := Some []\<rparr>"
          PerspectiveCamera "[]" JNull "[]"]
    malformed_state_outcomes
      [of "constructed\<lparr>camera := Camera PerspectiveCamera, cameraState := Some ''abc''\<rparr>"
          PerspectiveCamera "''abc''" JNull "[]"]
    malformed_state_outcomes
      [of "constructed\<lparr>camera := Camera PerspectiveCamera, cameraState := Some ''null''\<rparr>"
          PerspectiveCamera "''null''" JNull "[]"]
    malformed_state_outcomes
      [of "constructed\<lparr>camera := Camera PerspectiveCamera, cameraState := Some ''[1,2,3]''\<rparr>"
          PerspectiveCamera "''[1,2,3]''" "JArr [JNum 1, JNum 2, JNum 3]" "[]"]
    malformed_state_outcomes
      [of "constructed\<lparr>camera := Camera PerspectiveCamera,
             cameraState := Some ''[1,0,0,0,0,1,0,0,0,0,1,0,15,30,70,1,9]''\<rparr>"
          PerspectiveCamera "''[1,0,0,0,0,1,0,0,0,0,1,0,15,30,70,1,9]''"
          "JArr (map JNum [1, 0, 0, 0, 0, 1, 0, 0, 0, 0, 1, 0, 15, 30, 70, 1, 9])"
          "[1, 0, 0, 0, 0, 1, 0, 0, 0, 0, 1, 0, 15, 30, 70, 1]"]
  by (simp add: constructed_def)

text \<open>
  The claim fails on the stored text \<^verbatim>\<open>abc\<close>.  The lookup emits it; when the view is
  initialized, \<^verbatim>\<open>createScene\<close> constructs the camera at the origin and the parse error
  leaves \<^verbatim>\<open>ngAfterViewInit\<close>: the camera is not at the default position, and neither the
  controls nor the loader are created.
\<close>

theorem malformed_state_counterexample:
  "step arrow_keys (NgAfterViewInit id)
     (run arrow_keys [NgOnInit, LookupDone (Emits (Some \<lparr>cameraPosition = Some ''abc''\<rparr>))]
        constructed)
   = (constructed\<lparr>reads := 1, loadingState := False, cameraState := Some ''abc'',
        renderer := Live, pmremGenerator := Live, scene := Some 0,
        camera := Camera PerspectiveCamera\<rparr>,
      Some SyntaxError)
   \<and> position PerspectiveCamera = Vec3 0 0 0"
  by (simp add: handler_defs parse_abc PerspectiveCamera_def)


section \<open>Loading progress\<close>

text \<open>
  What decides the offset is \<open>loadingState\<close>, which only the \<^verbatim>\<open>complete\<close> callback
  clears: after any events since the component was constructed, a progress event reports
  \<^verbatim>\<open>bytesLoaded / bytesTotal * 100\<close> when that callback has run, and this quantity minus 5
  when it has not.
\<close>

lemma progress_by_loadingState:
  "loadingProgress (fst (step K (Progress bytesLoaded bytesTotal) (run K evs constructed))) =
     Some (if list_ex completes evs then percent bytesLoaded bytesTotal
           else minus_num (percent bytesLoaded bytesTotal) 5)"
  by (simp add: on_progress_def Let_def loadingState_run constructed_def)

text \<open>
  C4.  The claim holds while the lookup is outstanding and after a lookup that emitted
  or completed empty, and fails after a lookup that failed.  A failed lookup is over,
  but it runs the \<^verbatim>\<open>error\<close> callback, which is empty, and never \<^verbatim>\<open>complete\<close>: whatever
  events follow it, every progress event is reported with the offset, until a
  \<^verbatim>\<open>complete\<close> callback runs, which this subscription never does.  Half of the asset is
  reported as 45 after a failed lookup, and as 50 after an empty one.
\<close>

theorem progress_offset_after_failed_lookup:
  "loadingProgress (fst (step K (Progress bytesLoaded bytesTotal)
       (run K ([NgOnInit, LookupDone Fails] @ evs) constructed))) =
     Some (if list_ex completes evs then percent bytesLoaded bytesTotal
           else minus_num (percent bytesLoaded bytesTotal) 5)
   \<and> loadingProgress (fst (step arrow_keys (Progress 50 100)
       (run arrow_keys [NgOnInit, LookupDone Fails, NgAfterViewInit id] constructed))) =
     Some (Finite 45)
   \<and> loadingProgress (fst (step arrow_keys (Progress 50 100)
       (run arrow_keys [NgOnInit, LookupDone Empty, NgAfterViewInit id] constructed))) =
     Some (Finite 50)
   \<and> loadingProgress (fst (step arrow_keys (Progress 50 100)
       (run arrow_keys [NgOnInit, NgAfterViewInit id] constructed))) =
     Some (Finite 45)
   \<and> percent 50 100 = Finite 50"
proof -
  have "list_ex completes ([NgOnInit, LookupDone Fails] @ evs) = list_ex completes evs"
    by simp
  then have general: "loadingProgress (fst (step K (Progress bytesLoaded bytesTotal)
       (run K ([NgOnInit, LookupDone Fails] @ evs) constructed))) =
     Some (if list_ex completes evs then percent bytesLoaded bytesTotal
           else minus_num (percent bytesLoaded bytesTotal) 5)"
    by (simp only: progress_by_loadingState)
  have half: "percent 50 100 = Finite 50"
    by (simp add: percent_def)
  have failed: "loadingProgress (fst (step arrow_keys (Progress 50 100)
       (run arrow_keys [NgOnInit, LookupDone Fails, NgAfterViewInit id] constructed))) =
     Some (Finite 45)"
    by (simp only: progress_by_loadingState) (simp add: half)
  have empty: "loadingProgress (fst (step arrow_keys (Progress 50 100)
       (run arrow_keys [NgOnInit, LookupDone Empty, NgAfterViewInit id] constructed))) =
     Some (Finite 50)"
    by (simp only: progress_by_loadingState) (simp add: half)
  have outstanding: "loadingProgress (fst (step arrow_keys (Progress 50 100)
       (run arrow_keys [NgOnInit, NgAfterViewInit id] constructed))) =
     Some (Finite 45)"
    by (simp only: progress_by_loadingState) (simp add: half)
  from general half failed empty outstanding show ?thesis
    by (simp only: simp_thms)
qed


text \<open>
  C7.  A lookup that fails runs the \<^verbatim>\<open>error\<close> callback, which does nothing, and never
  the \<^verbatim>\<open>complete\<close> callback.  The camera gets the default position as after an empty
  answer, but \<open>loadingState\<close> stays true where an empty answer clears it, and the
  progress of a half-loaded asset is reported as 45 where it is 50 after an empty answer.
\<close>

theorem lookup_failure_keeps_loading:
  "loadingState (run arrow_keys [NgOnInit, LookupDone Fails, NgAfterViewInit id] constructed)
   \<and> \<not> loadingState (run arrow_keys [NgOnInit, LookupDone (Emits None), NgAfterViewInit id]
          constructed)
   \<and> camera (run arrow_keys [NgOnInit, LookupDone Fails, NgAfterViewInit id] constructed) =
       Camera (PerspectiveCamera\<lparr>position := Vec3 15 30 70\<rparr>)
   \<and> camera (run arrow_keys [NgOnInit, LookupDone (Emits None), NgAfterViewInit id] constructed) =
       Camera (PerspectiveCamera\<lparr>position := Vec3 15 30 70\<rparr>)
   \<and> loadingProgress (run arrow_keys [NgOnInit, LookupDone Fails, NgAfterViewInit id,
        Progress 50 100] constructed) = Some (Finite 45)
   \<and> loadingProgress (run arrow_keys [NgOnInit, LookupDone (Emits None), NgAfterViewInit id,
        Progress 50 100] constructed) = Some (Finite 50)"
  by (simp add: handler_defs)


section \<open>Keyboard input\<close>

lemma arrow_keys_distinct:
  "distinct [RIGHT_ARROW arrow_keys, LEFT_ARROW arrow_keys, UP_ARROW arrow_keys, DOWN_ARROW arrow_keys]"
  by (simp add: arrow_keys_def)

text \<open>
  C5.  With four different key codes and a camera whose fields are numbers, a key-up of
  the right arrow adds 5 to the x coordinate of the camera position, the left arrow
  subtracts 5 from it, the up arrow adds 5 to the y coordinate and the down arrow
  subtracts 5 from it; the other coordinates, the other fields of the camera and the rest
  of the component stay as they were.  Before the camera exists, a key-up of any key
  leaves the component as it was.
\<close>

theorem keyEvent_arrows:
  assumes "distinct [RIGHT_ARROW K, LEFT_ARROW K, UP_ARROW K, DOWN_ARROW K]"
  shows "(camera s = Camera c \<longrightarrow>
            keyEvent K (RIGHT_ARROW K) s =
              s\<lparr>camera := Camera (c\<lparr>position :=
                Vec3 (vx (position c) + 5) (vy (position c)) (vz (position c))\<rparr>)\<rparr>
          \<and> keyEvent K (LEFT_ARROW K) s =
              s\<lparr>camera := Camera (c\<lparr>position :=
                Vec3 (vx (position c) - 5) (vy (position c)) (vz (position c))\<rparr>)\<rparr>
          \<and> keyEvent K (UP_ARROW K) s =
              s\<lparr>camera := Camera (c\<lparr>position :=
                Vec3 (vx (position c)) (vy (position c) + 5) (vz (position c))\<rparr>)\<rparr>
          \<and> keyEvent K (DOWN_ARROW K) s =
              s\<lparr>camera := Camera (c\<lparr>position :=
                Vec3 (vx (position c)) (vy (position c) - 5) (vz (position c))\<rparr>)\<rparr>)
       \<and> (camera s = NoCamera \<longrightarrow> keyEvent K key s = s)"
proof -
  from assms have ne: "LEFT_ARROW K \<noteq> RIGHT_ARROW K" "UP_ARROW K \<noteq> RIGHT_ARROW K"
    "UP_ARROW K \<noteq> LEFT_ARROW K" "DOWN_ARROW K \<noteq> RIGHT_ARROW K"
    "DOWN_ARROW K \<noteq> LEFT_ARROW K" "DOWN_ARROW K \<noteq> UP_ARROW K"
    by auto
  show ?thesis
    by (simp add: keyEvent_def add_x_def add_y_def ne)
qed

theorem keyEvent_arrows_witness:
  "distinct [RIGHT_ARROW arrow_keys, LEFT_ARROW arrow_keys, UP_ARROW arrow_keys, DOWN_ARROW arrow_keys]
   \<and> camera (constructed\<lparr>camera := Camera PerspectiveCamera\<rparr>) = Camera PerspectiveCamera
   \<and> keyEvent arrow_keys ''ArrowLeft'' (constructed\<lparr>camera := Camera PerspectiveCamera\<rparr>) =
       constructed\<lparr>camera := Camera (PerspectiveCamera\<lparr>position := Vec3 (- 5) 0 0\<rparr>)\<rparr>
   \<and> keyEvent arrow_keys ''ArrowUp'' (constructed\<lparr>camera := Camera PerspectiveCamera\<rparr>) =
       constructed\<lparr>camera := Camera (PerspectiveCamera\<lparr>position := Vec3 0 5 0\<rparr>)\<rparr>
   \<and> camera constructed = NoCamera
   \<and> keyEvent arrow_keys ''ArrowUp'' constructed = constructed"
  using keyEvent_arrows [OF arrow_keys_distinct,
      of "constructed\<lparr>camera := Camera PerspectiveCamera\<rparr>" PerspectiveCamera "''ArrowUp''"]
    keyEvent_arrows [OF arrow_keys_distinct, of constructed PerspectiveCamera "''ArrowUp''"]
  by (simp add: arrow_keys_def constructed_def PerspectiveCamera_def)

text \<open>
  C10.  A key-up of a key that is none of the four arrow keys leaves the whole component,
  the camera included, as it was.
\<close>

theorem keyEvent_other_key:
  assumes "key \<notin> {RIGHT_ARROW K, LEFT_ARROW K, UP_ARROW K, DOWN_ARROW K}"
  shows "keyEvent K key s = s"
  using assms by (simp add: keyEvent_def)

theorem keyEvent_other_key_witness:
  "''Enter'' \<notin> {RIGHT_ARROW arrow_keys, LEFT_ARROW arrow_keys, UP_ARROW arrow_keys,
       DOWN_ARROW arrow_keys}
   \<and> keyEvent arrow_keys ''Enter'' (constructed\<lparr>camera := Camera PerspectiveCamera\<rparr>) =
       constructed\<lparr>camera := Camera PerspectiveCamera\<rparr>"
proof -
  have h: "''Enter'' \<notin> {RIGHT_ARROW arrow_keys, LEFT_ARROW arrow_keys, UP_ARROW arrow_keys,
       DOWN_ARROW arrow_keys}"
    by (simp add: arrow_keys_def)
  show ?thesis
    using h keyEvent_other_key [OF h, of "constructed\<lparr>camera := Camera PerspectiveCamera\<rparr>"]
    by simp
qed

section \<open>Routing\<close>

lemma match_about:
  "match_path \<lparr>path = ''about'', pathMatch = Prefix, action = a\<rparr> segs =
     (case segs of [] \<Rightarrow> None | s # rest \<Rightarrow> if s = ''about'' then Some ([s], rest) else None)"
  by (cases segs) (auto simp: match_path_def part_matches_def)

lemma match_scene:
  "match_path \<lparr>path = ''scene'', pathMatch = Prefix, action = a\<rparr> segs =
     (case segs of [] \<Rightarrow> None | s # rest \<Rightarrow> if s = ''scene'' then Some ([s], rest) else None)"
  by (cases segs) (auto simp: match_path_def part_matches_def)

lemma match_404:
  "match_path \<lparr>path = ''404'', pathMatch = Prefix, action = a\<rparr> segs =
     (case segs of [] \<Rightarrow> None | s # rest \<Rightarrow> if s = ''404'' then Some ([s], rest) else None)"
  by (cases segs) (auto simp: match_path_def part_matches_def)

lemma match_empty:
  "match_path \<lparr>path = [], pathMatch = Full, action = a\<rparr> segs =
     (if segs = [] then Some ([], []) else None)"
  by (simp add: match_path_def)

lemma match_wildcard:
  "match_path \<lparr>path = ''**'', pathMatch = Prefix, action = a\<rparr> segs = Some (segs, [])"
  by (simp add: match_path_def)

lemmas match_route = match_about match_scene match_404 match_empty match_wildcard

text \<open>What the table without its last route, the wildcard, resolves.\<close>

lemma defined_routes_cases:
  "expand accepts routes (butlast routes) segs =
     (case segs of
        [] \<Rightarrow> (if accepts SceneModule [] then Some ([''scene''], Loads SceneModule []) else None)
      | s # rest \<Rightarrow>
          if s = ''about'' \<and> rest = [] then Some (segs, Activates AboutComponent)
          else if s = ''scene'' \<and> accepts SceneModule rest then Some (segs, Loads SceneModule rest)
          else if s = ''404'' \<and> rest = [] then Some (segs, Activates NotFoundComponent)
          else None)"
proof (cases segs)
  case Nil
  then show ?thesis
    by (simp add: routes_def match_route)
next
  case (Cons s rest)
  then show ?thesis
    by (cases rest) (simp_all add: routes_def match_route)
qed

lemma navigate_cases:
  "navigate accepts segs =
     (case segs of
        [] \<Rightarrow> (if accepts SceneModule [] then Some ([''scene''], Loads SceneModule [])
               else Some ([''404''], Activates NotFoundComponent))
      | s # rest \<Rightarrow>
          if s = ''about'' \<and> rest = [] then Some (segs, Activates AboutComponent)
          else if s = ''scene'' \<and> accepts SceneModule rest then Some (segs, Loads SceneModule rest)
          else if s = ''404'' \<and> rest = [] then Some (segs, Activates NotFoundComponent)
          else Some ([''404''], Activates NotFoundComponent))"
proof (cases segs)
  case Nil
  then show ?thesis
    by (simp add: navigate_def routes_def match_route)
next
  case (Cons s rest)
  then show ?thesis
    by (cases rest) (simp_all add: navigate_def routes_def match_route)
qed

text \<open>
  C9.  The URL \<^verbatim>\<open>/about\<close> activates the about view and \<^verbatim>\<open>/404\<close> the not-found view.
  When the scene module has a route for the empty remainder, \<^verbatim>\<open>/scene\<close> resolves to
  the lazily loaded scene module and the empty URL is redirected to \<^verbatim>\<open>/scene\<close>.  The
  empty path matches the empty URL only.  Every URL that the routes before the wildcard do
  not resolve is redirected to \<^verbatim>\<open>/404\<close> and activates the not-found view.
\<close>

theorem route_table:
  "navigate accepts [''about''] = Some ([''about''], Activates AboutComponent)
   \<and> navigate accepts [''404''] = Some ([''404''], Activates NotFoundComponent)
   \<and> (accepts SceneModule [] \<longrightarrow>
        navigate accepts [''scene''] = Some ([''scene''], Loads SceneModule [])
        \<and> navigate accepts [] = Some ([''scene''], Loads SceneModule []))
   \<and> (segs \<noteq> [] \<longrightarrow> match_path (routes ! 3) segs = None)
   \<and> (expand accepts routes (butlast routes) segs = None \<longrightarrow>
        navigate accepts segs = Some ([''404''], Activates NotFoundComponent))"
proof -
  have unmatched: "expand accepts routes (butlast routes) segs = None \<longrightarrow>
      navigate accepts segs = Some ([''404''], Activates NotFoundComponent)"
    unfolding defined_routes_cases navigate_cases
    by (simp split: list.splits if_splits)
  have full: "segs \<noteq> [] \<longrightarrow> match_path (routes ! 3) segs = None"
    by (simp add: routes_def match_route)
  show ?thesis
    using unmatched full by (simp add: navigate_cases)
qed

theorem route_table_witness:
  "navigate (\<lambda>m rest. rest = []) [''about''] = Some ([''about''], Activates AboutComponent)
   \<and> navigate (\<lambda>m rest. rest = []) [''scene''] = Some ([''scene''], Loads SceneModule [])
   \<and> navigate (\<lambda>m rest. rest = []) [] = Some ([''scene''], Loads SceneModule [])
   \<and> match_path (routes ! 3) [''settings''] = None
   \<and> expand (\<lambda>m rest. rest = []) routes (butlast routes) [''settings''] = None
   \<and> navigate (\<lambda>m rest. rest = []) [''settings''] = Some ([''404''], Activates NotFoundComponent)
   \<and> expand (\<lambda>m rest. rest = []) routes (butlast routes) [''about'', ''team''] = None
   \<and> navigate (\<lambda>m rest. rest = []) [''about'', ''team''] =
       Some ([''404''], Activates NotFoundComponent)"
  using route_table [of "\<lambda>m rest. rest = []" "[''settings'']"]
    route_table [of "\<lambda>m rest. rest = []" "[''about'', ''team'']"]
  by (simp add: defined_routes_cases)

end
